theory Spec2Isabelle
  imports Complex_Main "HOL-Library.Log_Nat"
begin

section \<open>SEO Research Pro: the analysis client and dashboard\<close>

text \<open>
  The repository holds several generations of the same page. The embedding follows two of
  them closely and the handler of a third:
  \<^item> the \<^emph>\<open>analyze view\<close> (the component with \<open>isValidUrl\<close>, \<open>geminiTopN\<close>,
    \<open>copyMerged\<close> and \<open>downloadCSV\<close>);
  \<^item> the \<^emph>\<open>tabbed view\<close> of \<open>app/page.tsx\<close> (\<open>analyzeKeywords\<close>,
    \<open>analyzeCompetitor\<close>, \<open>getAllKeywords\<close>, the competitor dashboard);
  \<^item> the \<^emph>\<open>crawl view\<close> of \<open>app/page.tsx\<close> (the first \<open>analyzeSEO\<close>, which calls
    \<open>/api/crawl\<close>).

  Text is modelled by its UTF-8 encoding: a \<open>string\<close> is the list of bytes of the text.
  A field of a JSON payload that is missing (\<open>undefined\<close>) or \<open>null\<close> is \<open>None\<close>; the code
  treats the two alike at every access modelled here.
\<close>

subsection \<open>Strings\<close>

text \<open>\<open>Array.prototype.join\<close>.\<close>

fun join :: "string \<Rightarrow> string list \<Rightarrow> string" where
  "join sep [] = []"
| "join sep [x] = x"
| "join sep (x # y # ys) = x @ sep @ join sep (y # ys)"

text \<open>\<open>s.replace(/c/g, r)\<close> for a one-character pattern \<open>c\<close>.\<close>

definition replace_all :: "char \<Rightarrow> string \<Rightarrow> string \<Rightarrow> string" where
  "replace_all c r s = concat (map (\<lambda>x. if x = c then r else [x]) s)"

text \<open>The byte-order mark \<open>U+FEFF\<close> as the Blob writes it, in UTF-8.\<close>

definition BOM :: string where
  "BOM = [CHR 0xEF, CHR 0xBB, CHR 0xBF]"

subsection \<open>Numbers\<close>

text \<open>
  A JavaScript number read from JSON is a finite double, which is a rational. Arithmetic
  rounds its exact result to the nearest double, ties to even (\<open>fl\<close>): 53 significant
  bits, with the fixed spacing \<open>2\<^sup>-\<^sup>1\<^sup>0\<^sup>7\<^sup>4\<close> below the normal range. Overflow to
  \<open>Infinity\<close> (magnitudes from \<open>2\<^sup>1\<^sup>0\<^sup>2\<^sup>4\<close> on) has no value here.
\<close>

type_synonym number = rat

definition pow2 :: "int \<Rightarrow> rat" where
  "pow2 e = (if 0 \<le> e then 2 ^ nat e else 1 / 2 ^ nat (- e))"

text \<open>\<open>ilog2 x\<close> is the exponent of the highest power of two not above \<open>x\<close>, for \<open>x > 0\<close>.\<close>

definition ilog2 :: "rat \<Rightarrow> int" where
  "ilog2 x = (if 1 \<le> x then bitlen \<lfloor>x\<rfloor> - 1 else - bitlen (\<lceil>1 / x\<rceil> - 1))"

definition round_even :: "rat \<Rightarrow> int" where
  "round_even q =
     (let f = \<lfloor>q\<rfloor>; r = q - of_int f
      in if r < 1 / 2 then f
         else if 1 / 2 < r then f + 1
         else if even f then f else f + 1)"

text \<open>\<open>pow2 (qexp x)\<close> is the spacing of the doubles around \<open>x\<close>.\<close>

definition qexp :: "rat \<Rightarrow> int" where
  "qexp x = max (ilog2 \<bar>x\<bar> - 52) (- 1074)"

definition fl :: "rat \<Rightarrow> number" where
  "fl x =
     (if x = 0 then 0
      else sgn x * of_int (round_even (\<bar>x\<bar> / pow2 (qexp x))) * pow2 (qexp x))"

text \<open>The operators \<open>a * b\<close> and \<open>a / b\<close>, a decimal literal \<open>n/d\<close> of the source, and \<open>Math.floor\<close>.\<close>

definition js_mul :: "number \<Rightarrow> number \<Rightarrow> number" where
  "js_mul a b = fl (a * b)"

definition js_div :: "number \<Rightarrow> number \<Rightarrow> number" where
  "js_div a b = fl (a / b)"

definition literal :: "rat \<Rightarrow> number" where
  "literal q = fl q"

definition Math_floor :: "number \<Rightarrow> number" where
  "Math_floor x = of_int \<lfloor>x\<rfloor>"

text \<open>Truthiness of a number: only zero is falsy (JSON carries no \<open>NaN\<close>).\<close>

definition truthy :: "number \<Rightarrow> bool" where
  "truthy n = (n \<noteq> 0)"

subsection \<open>Response payloads\<close>

text \<open>
  The three payload interfaces describe one JSON object at three levels of detail:
  \<open>KeywordData\<close>, \<open>AnalyzePayload\<close> (adding content metrics, technical flags and
  headings) and \<open>CompetitorData\<close> (adding the traffic and authority metrics). The field
  \<open>url\<close> of the payload is \<open>page_url\<close> here, since the view state has a \<open>url\<close> of its
  own, and \<open>keywords\<close> is \<open>keywords_field\<close>. \<open>keywords\<close> and \<open>headings\<close> are objects keyed by \<open>gemini\<close>/\<open>onpage\<close>/\<open>merged\<close> and
  \<open>h1\<close>/\<open>h2\<close>/\<open>h3\<close>; \<open>technical\<close> and \<open>content_metrics\<close> are iterated with
  \<open>Object.entries\<close>, so they keep their entries in order.
\<close>

record KeywordData =
  page_url :: "string option"
  title :: "string option"
  meta_description :: "string option"
  word_count :: "number option"
  keywords_field :: "(string \<rightharpoonup> string list) option"

record AnalyzePayload = KeywordData +
  content_metrics :: "(string \<times> number) list option"
  technical :: "(string \<times> bool) list option"
  headings :: "(string \<rightharpoonup> string list) option"

record CompetitorData = AnalyzePayload +
  estimated_traffic :: "number option"
  monthly_visitors :: "number option"
  bounce_rate :: "number option"
  avg_session_duration :: "string option"
  pages_per_session :: "number option"
  domain_authority :: "number option"
  page_authority :: "number option"
  backlinks :: "number option"
  referring_domains :: "number option"
  organic_keywords :: "number option"
  paid_keywords :: "number option"
  seo_score :: "number option"
  mobile_score :: "number option"
  page_speed :: "number option"

text \<open>\<open>obj?.[key] || []\<close> on an optional object of arrays (an array, even empty, is truthy).\<close>

definition list_field :: "(string \<rightharpoonup> string list) option \<Rightarrow> string \<Rightarrow> string list" where
  "list_field obj key =
     (case obj of None \<Rightarrow> [] | Some m \<Rightarrow> (case m key of None \<Rightarrow> [] | Some ws \<Rightarrow> ws))"

subsection \<open>Effects\<close>

text \<open>
  What a handler does to the world outside the view state: a network request, a clipboard
  write, a file handed to the browser for download (the Blob's bytes, its MIME type and the
  file name of the clicked link), a timer.
\<close>

record download =
  filename :: string
  mime :: string
  content :: string

datatype effect =
    Fetch string
  | ClipboardWrite string
  | Download download
  | SetTimeout nat

subsection \<open>The analyze view: state\<close>

record view_state =
  url :: string
  loading :: bool
  error :: string

record 'p analyze_state = view_state +
  geminiTopN :: number
  data :: "'p option"
  copied :: bool

text \<open>\<open>data?.keywords?.[key] || []\<close>.\<close>

definition data_keywords ::
  "('a AnalyzePayload_scheme, 'b) analyze_state_scheme \<Rightarrow> string \<Rightarrow> string list" where
  "data_keywords st key =
     (case data st of None \<Rightarrow> [] | Some d \<Rightarrow> list_field (keywords_field d) key)"

subsection \<open>The analyze view: export helpers\<close>

text \<open>
  \<open>copyMerged\<close>. \<open>clip_ok\<close> says whether \<open>navigator.clipboard.writeText\<close> resolves; when
  it rejects, the empty \<open>catch\<close> swallows the rejection and \<open>copied\<close> stays as it was. The
  timer's callback is \<open>copied_timeout\<close>.
\<close>

definition copyMerged ::
  "bool \<Rightarrow> ('a AnalyzePayload_scheme, 'b) analyze_state_scheme
     \<Rightarrow> ('a AnalyzePayload_scheme, 'b) analyze_state_scheme \<times> effect list" where
  "copyMerged clip_ok st =
     (let merged = data_keywords st ''merged''
      in if length merged = 0 then (st, [])
         else if clip_ok
           then (st\<lparr>copied := True\<rparr>, [ClipboardWrite (join ''\<newline>'' merged), SetTimeout 1500])
           else (st, [ClipboardWrite (join ''\<newline>'' merged)]))"

definition copied_timeout ::
  "('p, 'b) analyze_state_scheme \<Rightarrow> ('p, 'b) analyze_state_scheme" where
  "copied_timeout st = st\<lparr>copied := False\<rparr>"

text \<open>
  \<open>downloadCSV\<close>. \<open>pushRows\<close> appends one row per word to the \<open>rows\<close> array, in order.
\<close>

definition csv_row :: "string \<Rightarrow> string \<Rightarrow> string" where
  "csv_row source kw = source @ '',\"'' @ replace_all (CHR ''\"'') ''\"\"'' kw @ ''\"''"

definition pushRows :: "string \<Rightarrow> string list \<Rightarrow> string list \<Rightarrow> string list" where
  "pushRows source words rows = fold (\<lambda>kw rs. rs @ [csv_row source kw]) words rows"

definition csv_text :: "('a AnalyzePayload_scheme, 'b) analyze_state_scheme \<Rightarrow> string" where
  "csv_text st =
     (let rows = [''source,keyword''];
          rows = pushRows ''merged'' (data_keywords st ''merged'') rows;
          rows = pushRows ''gemini'' (data_keywords st ''gemini'') rows;
          rows = pushRows ''onpage'' (data_keywords st ''onpage'') rows
      in BOM @ join ''\<newline>'' rows)"

definition downloadCSV ::
  "('a AnalyzePayload_scheme, 'b) analyze_state_scheme
     \<Rightarrow> ('a AnalyzePayload_scheme, 'b) analyze_state_scheme \<times> effect list" where
  "downloadCSV st =
     (st, [Download \<lparr>filename = ''keywords.csv'', mime = ''text/csv;charset=utf-8;'',
                     content = csv_text st\<rparr>])"

subsection \<open>Platform functions\<close>

text \<open>
  \<open>encodeURIComponent\<close> keeps the unreserved characters and writes every other byte of the
  UTF-8 text as \<open>%XX\<close>. The serializer of \<open>URLSearchParams\<close> keeps a smaller set, writes a
  space as \<open>+\<close> and joins \<open>name=value\<close> pairs with \<open>&\<close>.
\<close>

definition hex_digit :: "nat \<Rightarrow> char" where
  "hex_digit d = ''0123456789ABCDEF'' ! d"

definition percent :: "char \<Rightarrow> string" where
  "percent c = [CHR ''%'', hex_digit (of_char c div 16), hex_digit (of_char c mod 16)]"

definition alphanumeric :: string where
  "alphanumeric = ''ABCDEFGHIJKLMNOPQRSTUVWXYZabcdefghijklmnopqrstuvwxyz0123456789''"

definition encodeURIComponent :: "string \<Rightarrow> string" where
  "encodeURIComponent s =
     concat (map (\<lambda>c. if c \<in> set (alphanumeric @ ''-_.!~*()'' @ [CHR 0x27]) then [c]
                        else percent c) s)"

definition form_encode :: "string \<Rightarrow> string" where
  "form_encode s =
     concat (map (\<lambda>c. if c \<in> set (alphanumeric @ ''*-._'') then [c]
                        else if c = CHR '' '' then ''+''
                        else percent c) s)"

definition URLSearchParams_toString :: "(string \<times> string) list \<Rightarrow> string" where
  "URLSearchParams_toString ps =
     join ''&'' (map (\<lambda>(k, v). form_encode k @ ''='' @ form_encode v) ps)"

text \<open>
  \<open>String(n)\<close>. A natural number prints as its decimal digits (\<open>response.status\<close>). A
  number that is an integer of magnitude at most \<open>2\<^sup>5\<^sup>3\<close> prints as that signed decimal
  (its shortest digits that read back as the same double are all of its digits); the
  text of every other number is the runtime's \<open>number_text\<close>.
\<close>

fun digits :: "nat \<Rightarrow> string" where
  "digits n = (if n < 10 then [''0123456789'' ! n]
               else digits (n div 10) @ [''0123456789'' ! (n mod 10)])"

declare digits.simps [simp del]

definition String_number :: "(number \<Rightarrow> string) \<Rightarrow> number \<Rightarrow> string" where
  "String_number other_text n =
     (if n = of_int \<lfloor>n\<rfloor> \<and> \<bar>n\<bar> \<le> 2 ^ 53
      then (if n < 0 then ''-'' else []) @ digits (nat \<bar>\<lfloor>n\<rfloor>\<bar>)
      else other_text n)"

text \<open>
  \<open>String.prototype.trim\<close> strips white space and line terminators from both ends. In
  UTF-8 these are six ASCII bytes, the two-byte \<open>U+00A0\<close> and the three-byte
  \<open>U+1680\<close>, \<open>U+2000\<close>--\<open>U+200A\<close>, \<open>U+2028\<close>, \<open>U+2029\<close>, \<open>U+202F\<close>, \<open>U+205F\<close>,
  \<open>U+3000\<close> and \<open>U+FEFF\<close>.
\<close>

definition ws1 :: "char \<Rightarrow> bool" where
  "ws1 a = (a \<in> {CHR 0x09, CHR 0x0A, CHR 0x0B, CHR 0x0C, CHR 0x0D, CHR 0x20})"

definition ws2 :: "char \<Rightarrow> char \<Rightarrow> bool" where
  "ws2 a b = (a = CHR 0xC2 \<and> b = CHR 0xA0)"

definition ws3 :: "char \<Rightarrow> char \<Rightarrow> char \<Rightarrow> bool" where
  "ws3 a b c =
     ((a = CHR 0xE1 \<and> b = CHR 0x9A \<and> c = CHR 0x80)
      \<or> (a = CHR 0xE2 \<and> b = CHR 0x80
           \<and> ((0x80 \<le> (of_char c :: nat) \<and> (of_char c :: nat) \<le> 0x8A)
                \<or> c \<in> {CHR 0xA8, CHR 0xA9, CHR 0xAF}))
      \<or> (a = CHR 0xE2 \<and> b = CHR 0x81 \<and> c = CHR 0x9F)
      \<or> (a = CHR 0xE3 \<and> b = CHR 0x80 \<and> c = CHR 0x80)
      \<or> (a = CHR 0xEF \<and> b = CHR 0xBB \<and> c = CHR 0xBF))"

fun trimStart :: "string \<Rightarrow> string" where
  "trimStart (a # b # c # s) =
     (if ws1 a then trimStart (b # c # s)
      else if ws2 a b then trimStart (c # s)
      else if ws3 a b c then trimStart s
      else a # b # c # s)"
| "trimStart [a, b] =
     (if ws1 a then trimStart [b] else if ws2 a b then [] else [a, b])"
| "trimStart [a] = (if ws1 a then [] else [a])"
| "trimStart [] = []"

text \<open>\<open>trimEnd_rev\<close> is \<open>trimEnd\<close> on the reversed text.\<close>

fun trimEnd_rev :: "string \<Rightarrow> string" where
  "trimEnd_rev (c # b # a # s) =
     (if ws1 c then trimEnd_rev (b # a # s)
      else if ws2 b c then trimEnd_rev (a # s)
      else if ws3 a b c then trimEnd_rev s
      else c # b # a # s)"
| "trimEnd_rev [b, a] =
     (if ws1 b then trimEnd_rev [a] else if ws2 a b then [] else [b, a])"
| "trimEnd_rev [a] = (if ws1 a then [] else [a])"
| "trimEnd_rev [] = []"

definition trim :: "string \<Rightarrow> string" where
  "trim s = rev (trimEnd_rev (rev (trimStart s)))"

text \<open>Truthiness of an optional string, and \<open>a || b\<close>: the empty string is falsy.\<close>

definition truthy_text :: "string option \<Rightarrow> bool" where
  "truthy_text a = (case a of None \<Rightarrow> False | Some s \<Rightarrow> s \<noteq> [])"

definition or_text :: "string option \<Rightarrow> string \<Rightarrow> string" where
  "or_text a b = (case a of None \<Rightarrow> b | Some s \<Rightarrow> if s = [] then b else s)"

subsection \<open>The URL validator\<close>

text \<open>
  \<open>new URL(value)\<close> is the platform's parser: it throws on a string that is not an absolute
  URL (\<open>None\<close>) and otherwise yields an object whose \<open>protocol\<close> is the scheme with its
  colon and whose \<open>host\<close> may be empty. \<open>isValidUrl\<close> is written over any such parser.
\<close>

record URL =
  protocol :: string
  host :: string

definition isValidUrl :: "(string \<Rightarrow> URL option) \<Rightarrow> string \<Rightarrow> bool" where
  "isValidUrl new_URL v =
     (case new_URL v of
        None \<Rightarrow> False
      | Some u \<Rightarrow> protocol u \<noteq> [] \<and> host u \<noteq> [])"

subsection \<open>The runtime and the network\<close>

text \<open>
  A thrown value is an \<open>Error\<close> with its message or something else. \<open>response.json()\<close>
  rejects with a \<open>SyntaxError\<close> (its message) or yields the body, a JSON object read
  either for its \<open>detail\<close> and \<open>message\<close> strings or as the payload. \<open>fetch\<close> rejects or
  resolves with a status and a body.
\<close>

datatype thrown = JsError string | NonError

datatype 'p body = NotJson string | JsonObject "string option" "string option" 'p

datatype 'p outcome = Rejected thrown | Response nat "'p body"

record 'p runtime =
  new_URL :: "string \<Rightarrow> URL option"
  number_text :: "number \<Rightarrow> string"
  NEXT_PUBLIC_FASTAPI_URL :: "string option"
  fetch :: "string \<Rightarrow> 'p outcome"

definition ok :: "nat \<Rightarrow> bool" where
  "ok status = (200 \<le> status \<and> status \<le> 299)"

text \<open>\<open>process.env.NEXT_PUBLIC_FASTAPI_URL || "http://localhost:8000"\<close>.\<close>

definition API_URL :: "('p, 'z) runtime_scheme \<Rightarrow> string" where
  "API_URL rt = or_text (NEXT_PUBLIC_FASTAPI_URL rt) ''http://localhost:8000''"

text \<open>\<open>err instanceof Error ? err.message : fallback\<close>.\<close>

definition catch_message :: "thrown \<Rightarrow> string \<Rightarrow> string" where
  "catch_message err fallback = (case err of JsError m \<Rightarrow> m | NonError \<Rightarrow> fallback)"

text \<open>\<open>await response.json()\<close> on a successful response.\<close>

definition response_json :: "'p body \<Rightarrow> thrown + 'p" where
  "response_json b = (case b of NotJson m \<Rightarrow> Inl (JsError m) | JsonObject d m p \<Rightarrow> Inr p)"

subsection \<open>The analyze view: handlers\<close>

definition setUrl :: "string \<Rightarrow> 'z view_state_scheme \<Rightarrow> 'z view_state_scheme" where
  "setUrl v st = st\<lparr>url := v\<rparr>"

text \<open>
  The number field's \<open>onChange\<close>: \<open>setGeminiTopN(Number(e.target.value || 0))\<close>. The value
  of a number input is either the empty string (\<open>None\<close>) or a valid number text, given
  here by the rational it denotes, which \<open>Number\<close> rounds to the nearest double. The
  attributes \<open>min\<close> and \<open>max\<close> of the field are not consulted.
\<close>

definition topN_onChange ::
  "rat option \<Rightarrow> ('p, 'z) analyze_state_scheme \<Rightarrow> ('p, 'z) analyze_state_scheme" where
  "topN_onChange v st = st\<lparr>geminiTopN := (case v of None \<Rightarrow> 0 | Some q \<Rightarrow> fl q)\<rparr>"

definition dismiss :: "'z view_state_scheme \<Rightarrow> 'z view_state_scheme" where
  "dismiss st = st\<lparr>error := []\<rparr>"

text \<open>
  \<open>analyzeSEO\<close> of the analyze view. \<open>analyze_request\<close> is the address it fetches,
  \<open>analyze_error_message\<close> the message thrown on a response that is not \<open>ok\<close>,
  \<open>analyze_try\<close> the \<open>try\<close> block, \<open>analyze_pending\<close> the state while the request is in
  flight.
\<close>

definition analyze_request ::
  "('p, 'y) runtime_scheme \<Rightarrow> ('q, 'z) analyze_state_scheme \<Rightarrow> string" where
  "analyze_request rt st =
     API_URL rt @ ''/analyze?''
       @ URLSearchParams_toString
           [(''url'', url st),
            (''gemini_top_n'', String_number (number_text rt) (geminiTopN st))]"

definition analyze_error_message :: "nat \<Rightarrow> 'p body \<Rightarrow> string" where
  "analyze_error_message status b =
     (case b of
        NotJson m \<Rightarrow> ''HTTP error! status: '' @ digits status
      | JsonObject detail message p \<Rightarrow>
          or_text detail (or_text message (''HTTP error! status: '' @ digits status)))"

definition analyze_try ::
  "('p, 'y) runtime_scheme \<Rightarrow> ('q, 'z) analyze_state_scheme \<Rightarrow> thrown + 'p" where
  "analyze_try rt st =
     (case fetch rt (analyze_request rt st) of
        Rejected e \<Rightarrow> Inl e
      | Response status b \<Rightarrow>
          if \<not> ok status then Inl (JsError (analyze_error_message status b))
          else response_json b)"

definition analyze_pending ::
  "('p, 'z) analyze_state_scheme \<Rightarrow> ('p, 'z) analyze_state_scheme" where
  "analyze_pending st = st\<lparr>loading := True, error := [], copied := False\<rparr>"

definition analyzeSEO ::
  "('p, 'y) runtime_scheme \<Rightarrow> ('p, 'z) analyze_state_scheme
     \<Rightarrow> ('p, 'z) analyze_state_scheme \<times> effect list" where
  "analyzeSEO rt st =
     (if url st = [] \<or> \<not> isValidUrl (new_URL rt) (url st) then (st, [])
      else
        (case analyze_try rt st of
           Inr payload \<Rightarrow> (analyze_pending st)\<lparr>data := Some payload, loading := False\<rparr>
         | Inl err \<Rightarrow>
             (analyze_pending st)\<lparr>data := None,
                error := catch_message err ''Failed to analyze website'', loading := False\<rparr>,
         [Fetch (analyze_request rt st)]))"

subsection \<open>The tabbed view: state and handlers\<close>

datatype tab = keywords_tab | competitor_tab

record tabbed_state = view_state +
  activeTab :: tab
  keywordData :: "KeywordData option"
  competitorData :: "CompetitorData option"

text \<open>The message thrown on a response that is not \<open>ok\<close>: \<open>errorData.detail || ...\<close>.\<close>

definition tabbed_error_message :: "nat \<Rightarrow> 'p body \<Rightarrow> string" where
  "tabbed_error_message status b =
     (case b of
        NotJson m \<Rightarrow> ''HTTP error! status: '' @ digits status
      | JsonObject detail message p \<Rightarrow>
          or_text detail (''HTTP error! status: '' @ digits status))"

definition tabbed_try :: "('p, 'y) runtime_scheme \<Rightarrow> string \<Rightarrow> thrown + 'p" where
  "tabbed_try rt request =
     (case fetch rt request of
        Rejected e \<Rightarrow> Inl e
      | Response status b \<Rightarrow>
          if \<not> ok status then Inl (JsError (tabbed_error_message status b))
          else response_json b)"

definition keywords_request :: "('p, 'y) runtime_scheme \<Rightarrow> string \<Rightarrow> string" where
  "keywords_request rt u = API_URL rt @ ''/keywords?url='' @ encodeURIComponent u"

definition competitor_request :: "('p, 'y) runtime_scheme \<Rightarrow> string \<Rightarrow> string" where
  "competitor_request rt u = API_URL rt @ ''/analyze?url='' @ encodeURIComponent u"

definition analyzeKeywords ::
  "(KeywordData, 'y) runtime_scheme \<Rightarrow> 'z tabbed_state_scheme
     \<Rightarrow> 'z tabbed_state_scheme \<times> effect list" where
  "analyzeKeywords rt st =
     (if trim (url st) = [] then (st, [])
      else
        (case tabbed_try rt (keywords_request rt (url st)) of
           Inr d \<Rightarrow> st\<lparr>loading := True, error := []\<rparr>\<lparr>keywordData := Some d, loading := False\<rparr>
         | Inl err \<Rightarrow>
             st\<lparr>loading := True, error := []\<rparr>
               \<lparr>error := catch_message err ''Failed to analyze keywords'', loading := False\<rparr>,
         [Fetch (keywords_request rt (url st))]))"

definition analyzeCompetitor ::
  "(CompetitorData, 'y) runtime_scheme \<Rightarrow> 'z tabbed_state_scheme
     \<Rightarrow> 'z tabbed_state_scheme \<times> effect list" where
  "analyzeCompetitor rt st =
     (if trim (url st) = [] then (st, [])
      else
        (case tabbed_try rt (competitor_request rt (url st)) of
           Inr d \<Rightarrow> st\<lparr>loading := True, error := []\<rparr>\<lparr>competitorData := Some d, loading := False\<rparr>
         | Inl err \<Rightarrow>
             st\<lparr>loading := True, error := []\<rparr>
               \<lparr>error := catch_message err ''Failed to analyze competitor'', loading := False\<rparr>,
         [Fetch (competitor_request rt (url st))]))"

subsection \<open>The crawl view: state and handler\<close>

record 'p crawl_state = view_state +
  seoData :: "'p option"

definition crawl_request :: "string \<Rightarrow> string" where
  "crawl_request u = ''/api/crawl?url='' @ encodeURIComponent u"

definition crawl_try :: "('p, 'y) runtime_scheme \<Rightarrow> string \<Rightarrow> thrown + 'p" where
  "crawl_try rt request =
     (case fetch rt request of
        Rejected e \<Rightarrow> Inl e
      | Response status b \<Rightarrow>
          if \<not> ok status then Inl (JsError ''Failed to analyze website'')
          else response_json b)"

definition analyzeSEO_crawl ::
  "('p, 'y) runtime_scheme \<Rightarrow> ('p, 'z) crawl_state_scheme
     \<Rightarrow> ('p, 'z) crawl_state_scheme \<times> effect list" where
  "analyzeSEO_crawl rt st =
     (if url st = [] then (st, [])
      else
        (case crawl_try rt (crawl_request (url st)) of
           Inr d \<Rightarrow> st\<lparr>loading := True, error := []\<rparr>\<lparr>seoData := Some d, loading := False\<rparr>
         | Inl err \<Rightarrow>
             st\<lparr>loading := True, error := []\<rparr>
               \<lparr>error := catch_message err ''Analysis failed'', loading := False\<rparr>,
         [Fetch (crawl_request (url st))]))"

subsection \<open>What a view shows\<close>

text \<open>
  A value placed in the page is a number that React prints (\<open>Num\<close>), the text
  \<open>n.toLocaleString()\<close> of a number, which depends on the locale and is never empty
  (\<open>Localized\<close>), or a text. A child written \<open>x && <element>\<close> is nothing when \<open>x\<close> is
  \<open>undefined\<close>, \<open>null\<close>, \<open>false\<close> or the empty string, the bare number when \<open>x\<close> is the
  number zero (React prints it), and the element otherwise.
\<close>

datatype shown = Num number | Localized number | Text string

datatype 'a child = Nothing | Bare number | Element 'a

datatype render_error = TypeError string

definition throws :: "'e + 'a \<Rightarrow> bool" where
  "throws r = isl r"

text \<open>\<open>n && <element of n>\<close> for an optional number \<open>n\<close>.\<close>

definition number_gate :: "number option \<Rightarrow> (number \<Rightarrow> 'a) \<Rightarrow> 'a child" where
  "number_gate n element =
     (case n of None \<Rightarrow> Nothing | Some x \<Rightarrow> if truthy x then Element (element x) else Bare x)"

text \<open>\<open>s && <element of s>\<close> for an optional string \<open>s\<close>.\<close>

definition text_gate :: "string option \<Rightarrow> (string \<Rightarrow> 'a) \<Rightarrow> 'a child" where
  "text_gate s element =
     (case s of None \<Rightarrow> Nothing | Some t \<Rightarrow> if t = [] then Nothing else Element (element t))"

text \<open>\<open>n || b\<close> and \<open>n?.toLocaleString() || b\<close> for an optional number \<open>n\<close>.\<close>

definition num_or :: "number option \<Rightarrow> shown \<Rightarrow> shown" where
  "num_or n b = (case n of None \<Rightarrow> b | Some x \<Rightarrow> if truthy x then Num x else b)"

definition localized_or :: "number option \<Rightarrow> shown \<Rightarrow> shown" where
  "localized_or n b = (case n of None \<Rightarrow> b | Some x \<Rightarrow> Localized x)"

text \<open>\<open>n ? e(n) : 'N/A'\<close> for an optional number \<open>n\<close>.\<close>

definition derived :: "number option \<Rightarrow> (number \<Rightarrow> shown) \<Rightarrow> shown" where
  "derived n e = (case n of None \<Rightarrow> Text ''N/A'' | Some x \<Rightarrow> if truthy x then e x else Text ''N/A'')"

text \<open>\<open>d.word_count.toLocaleString()\<close>: the method call on a missing field throws.\<close>

definition word_count_text :: "'a KeywordData_scheme \<Rightarrow> render_error + shown" where
  "word_count_text d =
     (case word_count d of
        None \<Rightarrow> Inl (TypeError ''toLocaleString'')
      | Some n \<Rightarrow> Inr (Localized n))"

subsection \<open>The tabbed view: rendering\<close>

text \<open>\<open>[...new Set(xs)]\<close>: the elements in the order of their first occurrence.\<close>

definition Set_of :: "string list \<Rightarrow> string list" where
  "Set_of xs = fold (\<lambda>x seen. if x \<in> set seen then seen else seen @ [x]) xs []"

definition getAllKeywords :: "'a KeywordData_scheme \<Rightarrow> string list" where
  "getAllKeywords d =
     (case keywords_field d of
        None \<Rightarrow> []
      | Some m \<Rightarrow>
          Set_of (list_field (Some m) ''gemini'' @ list_field (Some m) ''onpage''
                    @ list_field (Some m) ''merged''))"

definition getKeywordsByType :: "'a KeywordData_scheme \<Rightarrow> string \<Rightarrow> string list" where
  "getKeywordsByType d type = list_field (keywords_field d) type"

text \<open>\<open>xs.length > 0 && <block of xs>\<close>.\<close>

definition nonempty_gate :: "'b list \<Rightarrow> 'a \<Rightarrow> 'a child" where
  "nonempty_gate xs element = (if 0 < length xs then Element element else Nothing)"

record keyword_view =
  kv_url :: "string option"
  kv_title :: string
  kv_word_count :: shown
  kv_meta_description :: "string child"
  kv_gemini :: "string list child"
  kv_onpage :: "string list child"
  kv_merged :: "string list child"
  kv_none_found :: bool

definition render_keywords :: "'a KeywordData_scheme \<Rightarrow> render_error + keyword_view" where
  "render_keywords d =
     (case word_count_text d of
        Inl e \<Rightarrow> Inl e
      | Inr wc \<Rightarrow>
          Inr \<lparr>kv_url = page_url d,
               kv_title = or_text (title d) ''No title found'',
               kv_word_count = wc,
               kv_meta_description = text_gate (meta_description d) id,
               kv_gemini = nonempty_gate (getKeywordsByType d ''gemini'')
                             (getKeywordsByType d ''gemini''),
               kv_onpage = nonempty_gate (getKeywordsByType d ''onpage'')
                             (getKeywordsByType d ''onpage''),
               kv_merged = nonempty_gate (getKeywordsByType d ''merged'')
                             (getKeywordsByType d ''merged''),
               kv_none_found = (length (getAllKeywords d) = 0)\<rparr>)"

text \<open>The four cards of the competitor tab, each gated by the truthiness of its metric.\<close>

definition seo_score_card :: "'a CompetitorData_scheme \<Rightarrow> shown child" where
  "seo_score_card d = number_gate (seo_score d) Num"

definition traffic_card :: "'a CompetitorData_scheme \<Rightarrow> shown child" where
  "traffic_card d = number_gate (estimated_traffic d) Localized"

definition domain_authority_card :: "'a CompetitorData_scheme \<Rightarrow> shown child" where
  "domain_authority_card d = number_gate (domain_authority d) Num"

definition backlinks_card :: "'a CompetitorData_scheme \<Rightarrow> shown child" where
  "backlinks_card d = number_gate (backlinks d) Localized"

text \<open>The cells of the traffic analytics and SEO performance panels.\<close>

definition monthly_visitors_cell :: "'a CompetitorData_scheme \<Rightarrow> shown" where
  "monthly_visitors_cell d =
     localized_or (monthly_visitors d)
       (derived (estimated_traffic d)
          (\<lambda>t. Localized (Math_floor (js_mul t (literal (12 / 10))))))"

definition bounce_rate_cell :: "'a CompetitorData_scheme \<Rightarrow> shown" where
  "bounce_rate_cell d = num_or (bounce_rate d) (Text ''45.2'')"

definition session_duration_cell :: "'a CompetitorData_scheme \<Rightarrow> string" where
  "session_duration_cell d = or_text (avg_session_duration d) ''2:34''"

definition organic_keywords_cell :: "'a CompetitorData_scheme \<Rightarrow> shown" where
  "organic_keywords_cell d =
     localized_or (organic_keywords d)
       (case keywords_field d of
          None \<Rightarrow> Text ''N/A''
        | Some m \<Rightarrow> Localized (of_nat (length (getAllKeywords d))))"

definition page_authority_cell :: "'a CompetitorData_scheme \<Rightarrow> shown" where
  "page_authority_cell d =
     num_or (page_authority d)
       (derived (domain_authority d)
          (\<lambda>a. Num (Math_floor (js_mul a (literal (8 / 10))))))"

definition referring_domains_cell :: "'a CompetitorData_scheme \<Rightarrow> shown" where
  "referring_domains_cell d =
     localized_or (referring_domains d)
       (derived (backlinks d) (\<lambda>b. Localized (Math_floor (js_div b 10))))"

definition mobile_score_cell :: "'a CompetitorData_scheme \<Rightarrow> shown" where
  "mobile_score_cell d =
     num_or (mobile_score d)
       (derived (seo_score d)
          (\<lambda>s. Num (Math_floor (js_mul s (literal (9 / 10))))))"

text \<open>
  The panels over \<open>technical\<close>, \<open>content_metrics\<close>, \<open>headings\<close> and the keywords. A heading
  block shows the count, the first three headings and, beyond three, how many more.
\<close>

definition entries_panel :: "(string \<times> 'b) list option \<Rightarrow> (string \<times> 'b) list child" where
  "entries_panel obj =
     (case obj of
        None \<Rightarrow> Nothing
      | Some es \<Rightarrow>
          nonempty_gate es (map (\<lambda>(k, v). (replace_all (CHR ''_'') '' '' k, v)) es))"

record heading_block =
  hb_count :: nat
  hb_first :: "string list"
  hb_more :: "nat option"

definition heading_panel :: "(string \<rightharpoonup> string list) \<Rightarrow> string \<Rightarrow> heading_block child" where
  "heading_panel hs tag =
     (case hs tag of
        None \<Rightarrow> Nothing
      | Some xs \<Rightarrow>
          nonempty_gate xs
            \<lparr>hb_count = length xs, hb_first = take 3 xs,
             hb_more = (if 3 < length xs then Some (length xs - 3) else None)\<rparr>)"

record headings_view =
  hv_h1 :: "heading_block child"
  hv_h2 :: "heading_block child"
  hv_h3 :: "heading_block child"

definition headings_panel :: "'a AnalyzePayload_scheme \<Rightarrow> headings_view child" where
  "headings_panel d =
     (case headings d of
        None \<Rightarrow> Nothing
      | Some hs \<Rightarrow>
          Element \<lparr>hv_h1 = heading_panel hs ''h1'', hv_h2 = heading_panel hs ''h2'',
                   hv_h3 = heading_panel hs ''h3''\<rparr>)"

record keywords_block =
  kb_count :: nat
  kb_first :: "string list"
  kb_more :: "nat option"

definition keywords_panel :: "'a KeywordData_scheme \<Rightarrow> keywords_block child" where
  "keywords_panel d =
     (case keywords_field d of
        None \<Rightarrow> Nothing
      | Some m \<Rightarrow>
          nonempty_gate (getAllKeywords d)
            \<lparr>kb_count = length (getAllKeywords d), kb_first = take 20 (getAllKeywords d),
             kb_more = (if 20 < length (getAllKeywords d)
                        then Some (length (getAllKeywords d) - 20) else None)\<rparr>)"

record competitor_view =
  cv_url :: "string option"
  cv_seo_score_card :: "shown child"
  cv_traffic_card :: "shown child"
  cv_domain_authority_card :: "shown child"
  cv_backlinks_card :: "shown child"
  cv_monthly_visitors :: shown
  cv_bounce_rate :: shown
  cv_session_duration :: string
  cv_organic_keywords :: shown
  cv_page_authority :: shown
  cv_referring_domains :: shown
  cv_mobile_score :: shown
  cv_title :: string
  cv_word_count :: shown
  cv_meta_description :: "string child"
  cv_technical :: "(string \<times> bool) list child"
  cv_headings :: "headings_view child"
  cv_content_metrics :: "(string \<times> number) list child"
  cv_keywords :: "keywords_block child"

definition render_competitor :: "'a CompetitorData_scheme \<Rightarrow> render_error + competitor_view" where
  "render_competitor d =
     (case word_count_text d of
        Inl e \<Rightarrow> Inl e
      | Inr wc \<Rightarrow>
          Inr \<lparr>cv_url = page_url d,
               cv_seo_score_card = seo_score_card d,
               cv_traffic_card = traffic_card d,
               cv_domain_authority_card = domain_authority_card d,
               cv_backlinks_card = backlinks_card d,
               cv_monthly_visitors = monthly_visitors_cell d,
               cv_bounce_rate = bounce_rate_cell d,
               cv_session_duration = session_duration_cell d,
               cv_organic_keywords = organic_keywords_cell d,
               cv_page_authority = page_authority_cell d,
               cv_referring_domains = referring_domains_cell d,
               cv_mobile_score = mobile_score_cell d,
               cv_title = or_text (title d) ''No title found'',
               cv_word_count = wc,
               cv_meta_description = text_gate (meta_description d) id,
               cv_technical = entries_panel (technical d),
               cv_headings = headings_panel d,
               cv_content_metrics = entries_panel (content_metrics d),
               cv_keywords = keywords_panel d\<rparr>)"

text \<open>What the competitor tab shows in one place, or the error thrown instead.\<close>

definition displayed ::
  "(competitor_view \<Rightarrow> 'b) \<Rightarrow> 'a CompetitorData_scheme \<Rightarrow> render_error + 'b" where
  "displayed cell d = map_sum id cell (render_competitor d)"

text \<open>
  The page of the tabbed view: the error line, the panel of the active tab when its data
  is loaded, and the empty state otherwise.
\<close>

record tabbed_view =
  tv_error :: "string child"
  tv_keywords :: "keyword_view child"
  tv_competitor :: "competitor_view child"
  tv_empty_state :: bool

definition render_tabbed :: "'z tabbed_state_scheme \<Rightarrow> render_error + tabbed_view" where
  "render_tabbed st =
     (case (if activeTab st = keywords_tab
            then (case keywordData st of
                    None \<Rightarrow> Inr Nothing
                  | Some k \<Rightarrow> map_sum id Element (render_keywords k))
            else Inr Nothing) of
        Inl e \<Rightarrow> Inl e
      | Inr kv \<Rightarrow>
          (case (if activeTab st = competitor_tab
                 then (case competitorData st of
                         None \<Rightarrow> Inr Nothing
                       | Some c \<Rightarrow> map_sum id Element (render_competitor c))
                 else Inr Nothing) of
             Inl e \<Rightarrow> Inl e
           | Inr cv \<Rightarrow>
               Inr \<lparr>tv_error = text_gate (Some (error st)) id,
                    tv_keywords = kv,
                    tv_competitor = cv,
                    tv_empty_state =
                      (((activeTab st = keywords_tab \<and> keywordData st = None)
                        \<or> (activeTab st = competitor_tab \<and> competitorData st = None))
                       \<and> \<not> loading st)\<rparr>))"

subsection \<open>The analyze view: rendering\<close>

text \<open>
  The results shown once a payload is loaded. The count printed next to each list of
  keywords and headings is the length of the list (\<open>xs?.length || 0\<close>), and the notice for
  an empty list is shown when that length is 0. \<open>flag\<close> is \<open>!!obj?.[key]\<close> on the optional
  object of technical flags.
\<close>

definition flag :: "(string \<times> bool) list option \<Rightarrow> string \<Rightarrow> bool" where
  "flag obj key = (case obj of None \<Rightarrow> False | Some es \<Rightarrow> map_of es key = Some True)"

record results_view =
  rv_words :: "number option"
  rv_h1_count :: nat
  rv_h2_count :: nat
  rv_merged :: "string list"
  rv_gemini :: "string list"
  rv_onpage :: "string list"
  rv_title :: string
  rv_meta_description :: string
  rv_h1s :: "string list"
  rv_h2s :: "string list"
  rv_meta_present :: bool
  rv_h1_present :: bool
  rv_canonical :: bool
  rv_og :: bool

definition render_results :: "'a AnalyzePayload_scheme \<Rightarrow> results_view" where
  "render_results d =
     \<lparr>rv_words = word_count d,
      rv_h1_count = length (list_field (headings d) ''h1''),
      rv_h2_count = length (list_field (headings d) ''h2''),
      rv_merged = list_field (keywords_field d) ''merged'',
      rv_gemini = list_field (keywords_field d) ''gemini'',
      rv_onpage = list_field (keywords_field d) ''onpage'',
      rv_title = or_text (title d) ''No title detected'',
      rv_meta_description = or_text (meta_description d) ''No meta description found'',
      rv_h1s = list_field (headings d) ''h1'',
      rv_h2s = take 10 (list_field (headings d) ''h2''),
      rv_meta_present =
        (truthy_text (meta_description d) \<or> flag (technical d) ''has_meta_description''),
      rv_h1_present = (0 < length (list_field (headings d) ''h1'')),
      rv_canonical = flag (technical d) ''has_canonical'',
      rv_og = flag (technical d) ''has_og''\<rparr>"

record analyze_view =
  av_button_disabled :: bool
  av_invalid_hint :: bool
  av_error :: "string child"
  av_skeleton :: bool
  av_results :: "results_view child"
  av_get_started :: bool

definition render_analyze ::
  "('p, 'y) runtime_scheme \<Rightarrow> ('a AnalyzePayload_scheme, 'z) analyze_state_scheme
     \<Rightarrow> analyze_view" where
  "render_analyze rt st =
     \<lparr>av_button_disabled = (\<not> isValidUrl (new_URL rt) (url st) \<or> loading st),
      av_invalid_hint = (\<not> isValidUrl (new_URL rt) (url st) \<and> 0 < length (url st)),
      av_error = text_gate (Some (error st)) id,
      av_skeleton = loading st,
      av_results =
        (case data st of
           None \<Rightarrow> Nothing
         | Some d \<Rightarrow> if \<not> loading st then Element (render_results d) else Nothing),
      av_get_started = (data st = None \<and> \<not> loading st)\<rparr>"

section \<open>Example inputs\<close>

text \<open>
  Keyword lists: \<open>merged = ["seo", "tools"]\<close>, \<open>gemini = ["ai"]\<close>, \<open>onpage = []\<close>, and three
  empty lists.
\<close>

definition example_keywords :: "string \<rightharpoonup> string list" where
  "example_keywords =
     [''merged'' \<mapsto> [''seo'', ''tools''], ''gemini'' \<mapsto> [''ai''], ''onpage'' \<mapsto> []]"

definition no_keywords :: "string \<rightharpoonup> string list" where
  "no_keywords = [''merged'' \<mapsto> [], ''gemini'' \<mapsto> [], ''onpage'' \<mapsto> []]"

text \<open>Payloads: one for each interface, and a competitor payload with no field at all.\<close>

definition example_keyword_data :: KeywordData where
  "example_keyword_data =
     \<lparr>page_url = Some ''https://example.com'', title = Some ''Example Domain'',
      meta_description = None, word_count = Some 120, keywords_field = Some example_keywords\<rparr>"

definition example_payload :: "(string \<rightharpoonup> string list) \<Rightarrow> AnalyzePayload" where
  "example_payload kws =
     \<lparr>page_url = Some ''https://example.com'', title = Some ''Example Domain'',
      meta_description = None, word_count = Some 120, keywords_field = Some kws,
      content_metrics = Some [], technical = Some [(''has_canonical'', True)],
      headings = Some [''h1'' \<mapsto> [''Example Domain'']]\<rparr>"

definition example_competitor :: CompetitorData where
  "example_competitor =
     \<lparr>page_url = Some ''https://example.com'', title = Some ''Example Domain'',
      meta_description = Some ''An example page'', word_count = Some 850,
      keywords_field = Some example_keywords,
      content_metrics = Some [(''avg_sentence_length'', 17)],
      technical = Some [(''has_canonical'', True), (''has_og'', False)],
      headings = Some [''h1'' \<mapsto> [''Example Domain'']],
      estimated_traffic = Some 1000, monthly_visitors = None, bounce_rate = Some 38,
      avg_session_duration = None, pages_per_session = None, domain_authority = Some 50,
      page_authority = None, backlinks = Some 240, referring_domains = None,
      organic_keywords = None, paid_keywords = None, seo_score = Some 72, mobile_score = None,
      page_speed = None\<rparr>"

definition bare_competitor :: CompetitorData where
  "bare_competitor =
     \<lparr>page_url = None, title = None, meta_description = None, word_count = None,
      keywords_field = None, content_metrics = None, technical = None, headings = None,
      estimated_traffic = None, monthly_visitors = None, bounce_rate = None,
      avg_session_duration = None, pages_per_session = None, domain_authority = None,
      page_authority = None, backlinks = None, referring_domains = None,
      organic_keywords = None, paid_keywords = None, seo_score = None, mobile_score = None,
      page_speed = None\<rparr>"

text \<open>
  View states: the analyze view as it is mounted and with a loaded payload, and the tabbed
  view on its keywords tab with a loaded result.
\<close>

definition SEOAnalyzer_init :: "'p analyze_state" where
  "SEOAnalyzer_init =
     \<lparr>url = [], loading = False, error = [], geminiTopN = 20, data = None, copied = False\<rparr>"

definition loaded_view :: "(string \<rightharpoonup> string list) \<Rightarrow> AnalyzePayload analyze_state" where
  "loaded_view kws =
     \<lparr>url = ''https://example.com'', loading = False, error = [], geminiTopN = 20,
      data = Some (example_payload kws), copied = False\<rparr>"

definition loaded_tabbed :: "string \<Rightarrow> tabbed_state" where
  "loaded_tabbed u =
     \<lparr>url = u, loading = False, error = [], activeTab = keywords_tab,
      keywordData = Some example_keyword_data, competitorData = None\<rparr>"

text \<open>
  A runtime: what \<open>new URL\<close> yields on the three strings used below (it throws on the
  others), no backend address configured, and a network that answers every request with
  the given outcome.
\<close>

definition example_new_URL :: "string \<Rightarrow> URL option" where
  "example_new_URL s =
     (if s = ''https://example.com''
      then Some \<lparr>protocol = ''https:'', host = ''example.com''\<rparr>
      else if s = ''mailto:someone@example.com''
      then Some \<lparr>protocol = ''mailto:'', host = []\<rparr>
      else None)"

definition example_runtime :: "'p outcome \<Rightarrow> 'p runtime" where
  "example_runtime out =
     \<lparr>new_URL = example_new_URL, number_text = (\<lambda>n. []),
      NEXT_PUBLIC_FASTAPI_URL = None, fetch = (\<lambda>request. out)\<rparr>"

section \<open>Properties\<close>

subsection \<open>The URL validator\<close>

text \<open>
  Claim C4. Over any parser, \<open>isValidUrl\<close> accepts a string exactly when the string
  parses as a URL whose scheme and host are both non-empty: a string that does not parse
  (no scheme) is rejected, a parsed URL with an empty scheme or host is rejected, and
  every parsed URL with both is accepted.
\<close>

theorem isValidUrl_iff:
  "(isValidUrl parse v \<longleftrightarrow> (\<exists>u. parse v = Some u \<and> protocol u \<noteq> [] \<and> host u \<noteq> []))
   \<and> (parse v = None \<longrightarrow> \<not> isValidUrl parse v)
   \<and> (\<forall>u. parse v = Some u \<and> (protocol u = [] \<or> host u = []) \<longrightarrow> \<not> isValidUrl parse v)
   \<and> (\<forall>u. parse v = Some u \<and> protocol u \<noteq> [] \<and> host u \<noteq> [] \<longrightarrow> isValidUrl parse v)"
  by (auto simp: isValidUrl_def split: option.splits)

theorem isValidUrl_iff_witness:
  "example_new_URL ''https://example.com''
     = Some \<lparr>protocol = ''https:'', host = ''example.com''\<rparr>
   \<and> isValidUrl example_new_URL ''https://example.com''
   \<and> example_new_URL ''example.com'' = None
   \<and> \<not> isValidUrl example_new_URL ''example.com''
   \<and> example_new_URL ''mailto:someone@example.com'' = Some \<lparr>protocol = ''mailto:'', host = []\<rparr>
   \<and> \<not> isValidUrl example_new_URL ''mailto:someone@example.com''"
  using isValidUrl_iff [of example_new_URL "''https://example.com''"]
    isValidUrl_iff [of example_new_URL "''example.com''"]
    isValidUrl_iff [of example_new_URL "''mailto:someone@example.com''"]
  by (simp add: example_new_URL_def)

subsection \<open>Double arithmetic\<close>

text \<open>
  Rounding to a double moves a number by at most half the spacing, never across an
  integer that lies on the grid of doubles, and onto such an integer when the number is
  within half the spacing of it. Below \<open>2\<^sup>4\<^sup>9\<close> the spacing is at most \<open>1/8\<close> and every
  integer lies on the grid.
\<close>

lemma pow2_pos: "0 < pow2 e"
  by (simp add: pow2_def)

lemma round_even_cases: "round_even q = \<lfloor>q\<rfloor> \<or> round_even q = \<lfloor>q\<rfloor> + 1"
  by (simp add: round_even_def Let_def)

lemma round_even_ge:
  assumes "of_int N \<le> q" shows "N \<le> round_even q"
proof -
  have "N \<le> \<lfloor>q\<rfloor>" using assms by (simp add: le_floor_iff)
  then show ?thesis using round_even_cases [of q] by linarith
qed

lemma round_even_le:
  assumes "q \<le> of_int N" shows "round_even q \<le> N"
proof (cases "q = of_int N")
  case True
  then show ?thesis by (simp add: round_even_def)
next
  case False
  then have "q < of_int N" using assms by simp
  then have "\<lfloor>q\<rfloor> < N" by (simp add: floor_less_iff)
  then show ?thesis using round_even_cases [of q] by linarith
qed

lemma round_even_err: "\<bar>of_int (round_even q) - q\<bar> \<le> 1 / 2"
proof -
  define r where "r = q - of_int \<lfloor>q\<rfloor>"
  have r: "0 \<le> r" "r < 1" unfolding r_def by linarith+
  have q: "q = of_int \<lfloor>q\<rfloor> + r" unfolding r_def by simp
  consider "r < 1 / 2" | "1 / 2 < r" | "r = 1 / 2" by linarith
  then show ?thesis
  proof cases
    case 1
    then have "round_even q = \<lfloor>q\<rfloor>" by (simp add: round_even_def Let_def r_def)
    then show ?thesis using 1 r q by (simp add: abs_le_iff r_def)
  next
    case 2
    then have "round_even q = \<lfloor>q\<rfloor> + 1" by (simp add: round_even_def Let_def r_def)
    then show ?thesis using 2 r unfolding r_def by (simp add: abs_le_iff) 
  next
    case 3
    then have "round_even q = \<lfloor>q\<rfloor> \<or> round_even q = \<lfloor>q\<rfloor> + 1" by (rule_tac round_even_cases)
    then show ?thesis using 3 unfolding r_def by (auto simp: abs_le_iff)
  qed
qed


lemma fl_pos:
  assumes "0 < x"
  shows "fl x = of_int (round_even (x / pow2 (qexp x))) * pow2 (qexp x)"
  using assms by (simp add: fl_def)

lemma fl_err:
  assumes "0 < x"
  shows "\<bar>fl x - x\<bar> \<le> pow2 (qexp x) / 2"
proof -
  let ?P = "pow2 (qexp x)"
  have P: "0 < ?P" by (rule pow2_pos)
  have "fl x - x = (of_int (round_even (x / ?P)) - x / ?P) * ?P"
    using P by (simp add: fl_pos [OF assms] field_simps)
  then have "\<bar>fl x - x\<bar> = \<bar>of_int (round_even (x / ?P)) - x / ?P\<bar> * ?P"
    using P by (simp add: abs_mult)
  also have "\<dots> \<le> (1 / 2) * ?P"
    using round_even_err [of "x / ?P"] P by (intro mult_right_mono) simp_all
  finally show ?thesis by simp
qed

lemma int_on_grid:
  assumes "e \<le> 0"
  obtains M :: int where "(of_int k :: rat) = of_int M * pow2 e"
proof
  show "(of_int k :: rat) = of_int (k * 2 ^ nat (- e)) * pow2 e"
    using assms by (simp add: pow2_def)
qed

lemma fl_ge_int:
  assumes "0 < x" "qexp x \<le> 0" "of_int k \<le> x"
  shows "of_int k \<le> fl x"
proof -
  define P where "P = pow2 (qexp x)"
  define y where "y = x / P"
  have P: "0 < P" unfolding P_def by (rule pow2_pos)
  obtain M :: int where M: "(of_int k :: rat) = of_int M * P"
    unfolding P_def using int_on_grid [OF assms(2)] by blast
  have x: "x = y * P" using P by (simp add: y_def)
  have "of_int M * P \<le> y * P" using assms(3) M x by simp
  then have "of_int M \<le> y" using P by (simp add: mult_le_cancel_right)
  then have "M \<le> round_even y" by (rule round_even_ge)
  then have "(of_int M :: rat) \<le> of_int (round_even y)" by (simp only: of_int_le_iff)
  then have "of_int M * P \<le> of_int (round_even y) * P"
    using P by (intro mult_right_mono) simp_all
  then show ?thesis
    using M by (simp add: fl_pos [OF assms(1)] P_def y_def)
qed

lemma fl_near_int:
  assumes "0 < x" "qexp x \<le> 0" "\<bar>of_int k - x\<bar> < pow2 (qexp x) / 2"
  shows "fl x = of_int k"
proof -
  define P where "P = pow2 (qexp x)"
  define y where "y = x / P"
  have P: "0 < P" unfolding P_def by (rule pow2_pos)
  obtain M :: int where M: "(of_int k :: rat) = of_int M * P"
    unfolding P_def using int_on_grid [OF assms(2)] by blast
  have x: "x = y * P" using P by (simp add: y_def)
  have "\<bar>of_int M - y\<bar> * P = \<bar>of_int k - x\<bar>"
    using P unfolding M x by (simp add: left_diff_distrib [symmetric] abs_mult)
  also have "\<dots> < (1 / 2) * P" using assms(3) by (simp add: P_def)
  finally have near: "\<bar>of_int M - y\<bar> < 1 / 2"
    using P by (simp only: mult_less_cancel_right_pos)
  have lo: "of_int M - 1 / 2 < y" and hi: "y < of_int M + 1 / 2"
    using near unfolding abs_less_iff by linarith+
  have "round_even y = M"
  proof (cases "y < of_int M")
    case True
    have f: "\<lfloor>y\<rfloor> = M - 1"
    proof (rule floor_unique)
      show "of_int (M - 1) \<le> y" using lo by simp
      show "y < of_int (M - 1) + 1" using True by simp
    qed
    have "1 / 2 < y - of_int \<lfloor>y\<rfloor>" unfolding f using lo by simp
    then have "round_even y = \<lfloor>y\<rfloor> + 1"
      by (simp add: round_even_def Let_def)
    then show ?thesis using f by simp
  next
    case False
    have f: "\<lfloor>y\<rfloor> = M"
    proof (rule floor_unique)
      show "of_int M \<le> y" using False by simp
      show "y < of_int M + 1" using hi by simp
    qed
    have "y - of_int \<lfloor>y\<rfloor> < 1 / 2" unfolding f using hi by simp
    then have "round_even y = \<lfloor>y\<rfloor>"
      by (simp add: round_even_def Let_def)
    then show ?thesis using f by simp
  qed
  then show ?thesis
    using M by (simp add: fl_pos [OF assms(1)] P_def y_def)
qed


lemma ilog2_ge1:
  assumes "1 \<le> x"
  shows "0 \<le> ilog2 x" and "x < 2 * 2 ^ nat (ilog2 x)" and "2 ^ nat (ilog2 x) \<le> x"
proof -
  define m where "m = \<lfloor>x\<rfloor>"
  have m: "0 < m" using assms unfolding m_def by simp
  have il: "ilog2 x = bitlen m - 1" using assms by (simp add: ilog2_def m_def)
  have b: "2 ^ nat (bitlen m - 1) \<le> m" "m < 2 ^ nat (bitlen m)"
    using bitlen_bounds [OF m] by simp_all
  have pos: "1 \<le> bitlen m"
    using m bitlen_eq_zero_iff [of m] bitlen_nonneg [of m] by linarith
  show "0 \<le> ilog2 x" using pos il by simp
  have "nat (bitlen m) = Suc (nat (bitlen m - 1))" using pos by simp
  then have "m < 2 * 2 ^ nat (bitlen m - 1)" using b(2) by simp
  then have "m + 1 \<le> 2 * 2 ^ nat (bitlen m - 1)" by simp
  then have "(of_int (m + 1) :: rat) \<le> of_int (2 * 2 ^ nat (bitlen m - 1))"
    by (simp only: of_int_le_iff)
  moreover have "x < of_int (m + 1)" unfolding m_def by linarith
  ultimately show "x < 2 * 2 ^ nat (ilog2 x)" unfolding il by simp
  have "(2::rat) ^ nat (bitlen m - 1) = of_int (2 ^ nat (bitlen m - 1))" by simp
  also have "\<dots> \<le> of_int m" using b(1) by (simp only: of_int_le_iff)
  also have "\<dots> \<le> x" unfolding m_def by simp
  finally show "2 ^ nat (ilog2 x) \<le> x" unfolding il .
qed

lemma ilog2_upper:
  assumes "0 < x" "x < 2 ^ n"
  shows "ilog2 x \<le> int n"
proof (cases "1 \<le> x")
  case True
  have "(2::rat) ^ nat (ilog2 x) < 2 ^ n"
    by (rule le_less_trans [OF ilog2_ge1(3) [OF True] assms(2)])
  then have "nat (ilog2 x) < n" by (simp only: power_strict_increasing_iff one_less_numeral_iff
        semiring_norm)
  then show ?thesis by simp
next
  case False
  then have "ilog2 x = - bitlen (\<lceil>1 / x\<rceil> - 1)" by (simp add: ilog2_def)
  then show ?thesis using bitlen_nonneg [of "\<lceil>1 / x\<rceil> - 1"] by simp
qed

lemma qexp_small:
  assumes "0 < x" "x < 2 ^ 49"
  shows "qexp x \<le> - 3" and "pow2 (qexp x) \<le> 1 / 8"
proof -
  have "ilog2 x \<le> 49" using ilog2_upper [OF assms] by simp
  then show q: "qexp x \<le> - 3" using assms(1) by (simp add: qexp_def)
  then have "3 \<le> nat (- qexp x)" by simp
  then have "(2::rat) ^ 3 \<le> 2 ^ nat (- qexp x)" by (intro power_increasing) simp_all
  then show "pow2 (qexp x) \<le> 1 / 8"
    using q by (simp add: pow2_def field_simps)
qed

lemma qexp_ge1:
  assumes "1 \<le> x"
  shows "x < pow2 (qexp x) * 2 ^ 53"
proof -
  have nn: "0 \<le> ilog2 x" and up: "x < 2 * 2 ^ nat (ilog2 x)"
    using ilog2_ge1 [OF assms] by simp_all
  have q: "qexp x = ilog2 x - 52" using nn assms by (simp add: qexp_def)
  have "pow2 (ilog2 x - 52) * 2 ^ 52 = 2 ^ nat (ilog2 x)"
  proof (cases "52 \<le> ilog2 x")
    case True
    then have "nat (ilog2 x) = nat (ilog2 x - 52) + 52" by simp
    then show ?thesis using True by (simp add: pow2_def power_add)
  next
    case False
    define k where "k = nat (52 - ilog2 x)"
    define j where "j = nat (ilog2 x)"
    have kj: "52 = k + j" using False nn by (simp add: k_def j_def)
    have p: "pow2 (ilog2 x - 52) = 1 / 2 ^ k" using False by (simp add: pow2_def k_def)
    have "pow2 (ilog2 x - 52) * 2 ^ (k + j) = 2 ^ j" unfolding p by (simp add: power_add)
    then have "pow2 (ilog2 x - 52) * 2 ^ 52 = 2 ^ j" unfolding kj [symmetric] .
    then show ?thesis unfolding j_def .
  qed
  then have "pow2 (qexp x) * 2 ^ 53 = 2 * 2 ^ nat (ilog2 x)" unfolding q by simp
  then show ?thesis using up by simp
qed


lemma floor_fl_between:
  assumes "0 < x" "x < 2 ^ 49" "of_int k \<le> x" "x < of_int k + 15 / 16"
  shows "\<lfloor>fl x\<rfloor> = k"
proof (rule floor_unique)
  have q: "qexp x \<le> 0" using qexp_small(1) [OF assms(1,2)] by simp
  show "of_int k \<le> fl x" by (rule fl_ge_int [OF assms(1) q assms(3)])
  have "\<bar>fl x - x\<bar> \<le> 1 / 16"
    using fl_err [OF assms(1)] qexp_small(2) [OF assms(1,2)] by simp
  then have "fl x \<le> x + 1 / 16" unfolding abs_le_iff by linarith
  then show "fl x < of_int k + 1" using assms(4) by linarith
qed

lemma fl_rounds_up_to:
  assumes "1 \<le> x" "x < 2 ^ 49" "x \<le> of_int k" "(of_int k - x) * 2 ^ 54 < x"
  shows "fl x = of_int k"
proof -
  have x: "0 < x" using assms(1) by simp
  have q: "qexp x \<le> 0" using qexp_small(1) [OF x assms(2)] by simp
  have "(of_int k - x) * 2 ^ 54 < pow2 (qexp x) * 2 ^ 53"
    using assms(4) qexp_ge1 [OF assms(1)] by simp
  then have "of_int k - x < pow2 (qexp x) / 2" by simp
  then have "\<bar>of_int k - x\<bar> < pow2 (qexp x) / 2" using assms(3) by simp
  then show ?thesis by (rule fl_near_int [OF x q])
qed

lemma literal_0_8: "literal (8 / 10) = 3602879701896397 / 2 ^ 52"
  by code_simp

lemma literal_1_2: "literal (12 / 10) = 5404319552844595 / 2 ^ 52"
  by code_simp

lemma literal_0_9: "literal (9 / 10) = 8106479329266893 / 2 ^ 53"
  by code_simp

lemma div_mod_10:
  fixes n :: nat
  obtains r :: nat where "n = 10 * (n div 10) + r" "r < 10"
proof
  show "n = 10 * (n div 10) + n mod 10" by simp
  show "n mod 10 < 10" by simp
qed

lemma pow_numerals:
  "(2::rat) ^ 40 = 1099511627776" "(2::rat) ^ 49 = 562949953421312"
  "(2::rat) ^ 51 = 2251799813685248" "(2::rat) ^ 52 = 4503599627370496"
  "(2::rat) ^ 53 = 9007199254740992" "(2::rat) ^ 54 = 18014398509481984"
  by simp_all

text \<open>
  For every whole number from 1 to \<open>2\<^sup>4\<^sup>0\<close>, the floor of the double product with \<open>0.8\<close>,
  \<open>1.2\<close> or \<open>0.9\<close>, and of the double quotient by 10, is the floor of the exact product or
  quotient.
\<close>

lemma floor_times_0_8:
  fixes a :: nat
  assumes "1 \<le> a" "a \<le> 2 ^ 40"
  shows "Math_floor (js_mul (of_nat a) (literal (8 / 10))) = of_nat (8 * a div 10)"
proof -
  define A :: rat where "A = of_nat a"
  define x where "x = A * (3602879701896397 / 4503599627370496)"
  obtain r :: nat where r: "8 * a = 10 * (8 * a div 10) + r" "r < 10"
    by (rule div_mod_10)
  define k :: int where "k = int (8 * a div 10)"
  have "(of_nat 1 :: rat) \<le> of_nat a" using assms(1) by (simp only: of_nat_le_iff)
  then have A1: "1 \<le> A" unfolding A_def by simp
  have "(of_nat a :: rat) \<le> of_nat (2 ^ 40)" using assms(2) by (simp only: of_nat_le_iff)
  then have A2: "A \<le> 1099511627776" unfolding A_def by simp
  have ten: "10 * x = 8 * A + A / 2251799813685248" unfolding x_def by simp
  have "(of_nat (8 * a) :: rat) = of_nat (10 * (8 * a div 10) + r)" using r(1) by simp
  then have split: "8 * A = 10 * of_int k + of_nat r" unfolding A_def k_def by simp
  have "(of_nat r :: rat) < of_nat 10" using r(2) by (simp only: of_nat_less_iff)
  then have rr: "(of_nat r :: rat) \<le> 9" using r(2) by simp
  have r0: "(0 :: rat) \<le> of_nat r" by simp
  have "\<lfloor>fl x\<rfloor> = k"
  proof (rule floor_fl_between)
    show "0 < x" using A1 ten by linarith
    show "x < 2 ^ 49" unfolding pow_numerals using A2 A1 ten by linarith
    show "of_int k \<le> x" using A1 ten split rr r0 by linarith
    show "x < of_int k + 15 / 16" using A1 A2 ten split rr by linarith
  qed
  then show ?thesis
    unfolding Math_floor_def js_mul_def literal_0_8 pow_numerals x_def A_def k_def by simp
qed


lemma floor_times_1_2:
  fixes t :: nat
  assumes "1 \<le> t" "t \<le> 2 ^ 40"
  shows "Math_floor (js_mul (of_nat t) (literal (12 / 10))) = of_nat (12 * t div 10)"
proof -
  define T :: rat where "T = of_nat t"
  define x where "x = T * (5404319552844595 / 4503599627370496)"
  obtain r :: nat where r: "12 * t = 10 * (12 * t div 10) + r" "r < 10"
    by (rule div_mod_10)
  define k :: int where "k = int (12 * t div 10)"
  have "(of_nat 1 :: rat) \<le> of_nat t" using assms(1) by (simp only: of_nat_le_iff)
  then have T1: "1 \<le> T" unfolding T_def by simp
  have "(of_nat t :: rat) \<le> of_nat (2 ^ 40)" using assms(2) by (simp only: of_nat_le_iff)
  then have T2: "T \<le> 1099511627776" unfolding T_def by simp
  have ten: "10 * x = 12 * T - T / 2251799813685248" unfolding x_def by simp
  have "(of_nat (12 * t) :: rat) = of_nat (10 * (12 * t div 10) + r)" using r(1) by simp
  then have split: "12 * T = 10 * of_int k + of_nat r" unfolding T_def k_def by simp
  have x0: "0 < x" using T1 ten by linarith
  have x49: "x < 2 ^ 49" unfolding pow_numerals using T2 T1 ten by linarith
  have "\<lfloor>fl x\<rfloor> = k"
  proof (cases "r = 0")
    case True
    have "fl x = of_int k"
    proof (rule fl_rounds_up_to)
      show "1 \<le> x" using T1 ten by linarith
      show "x < 2 ^ 49" by (rule x49)
      show "x \<le> of_int k" using T1 ten split True by simp
      show "(of_int k - x) * 2 ^ 54 < x"
        unfolding pow_numerals using T1 ten split True by simp
    qed
    then show ?thesis by simp
  next
    case False
    then have "1 \<le> r" by simp
    then have "(of_nat 1 :: rat) \<le> of_nat r" by (simp only: of_nat_le_iff)
    then have r1: "(1 :: rat) \<le> of_nat r" by simp
    have "(of_nat r :: rat) < of_nat 10" using r(2) by (simp only: of_nat_less_iff)
    then have rr: "(of_nat r :: rat) \<le> 9" using r(2) by simp
    show ?thesis
    proof (rule floor_fl_between)
      show "0 < x" by (rule x0)
      show "x < 2 ^ 49" by (rule x49)
      show "of_int k \<le> x" using T1 T2 ten split r1 by linarith
      show "x < of_int k + 15 / 16" using T1 ten split rr by linarith
    qed
  qed
  then show ?thesis
    unfolding Math_floor_def js_mul_def literal_1_2 pow_numerals x_def T_def k_def by simp
qed

lemma floor_times_0_9:
  fixes s :: nat
  assumes "1 \<le> s" "s \<le> 2 ^ 40"
  shows "Math_floor (js_mul (of_nat s) (literal (9 / 10))) = of_nat (9 * s div 10)"
proof -
  define S :: rat where "S = of_nat s"
  define x where "x = S * (8106479329266893 / 9007199254740992)"
  obtain r :: nat where r: "9 * s = 10 * (9 * s div 10) + r" "r < 10"
    by (rule div_mod_10)
  define k :: int where "k = int (9 * s div 10)"
  have "(of_nat 1 :: rat) \<le> of_nat s" using assms(1) by (simp only: of_nat_le_iff)
  then have S1: "1 \<le> S" unfolding S_def by simp
  have "(of_nat s :: rat) \<le> of_nat (2 ^ 40)" using assms(2) by (simp only: of_nat_le_iff)
  then have S2: "S \<le> 1099511627776" unfolding S_def by simp
  have ten: "10 * x = 9 * S + S / 4503599627370496" unfolding x_def by simp
  have "(of_nat (9 * s) :: rat) = of_nat (10 * (9 * s div 10) + r)" using r(1) by simp
  then have split: "9 * S = 10 * of_int k + of_nat r" unfolding S_def k_def by simp
  have "(of_nat r :: rat) < of_nat 10" using r(2) by (simp only: of_nat_less_iff)
  then have rr: "(of_nat r :: rat) \<le> 9" using r(2) by simp
  have r0: "(0 :: rat) \<le> of_nat r" by simp
  have "\<lfloor>fl x\<rfloor> = k"
  proof (rule floor_fl_between)
    show "0 < x" using S1 ten by linarith
    show "x < 2 ^ 49" unfolding pow_numerals using S2 S1 ten by linarith
    show "of_int k \<le> x" using S1 ten split rr r0 by linarith
    show "x < of_int k + 15 / 16" using S1 S2 ten split rr by linarith
  qed
  then show ?thesis
    unfolding Math_floor_def js_mul_def literal_0_9 pow_numerals x_def S_def k_def by simp
qed

lemma floor_div_10:
  fixes b :: nat
  assumes "1 \<le> b" "b \<le> 2 ^ 40"
  shows "Math_floor (js_div (of_nat b) 10) = of_nat (b div 10)"
proof -
  define B :: rat where "B = of_nat b"
  define x where "x = B / 10"
  obtain r :: nat where r: "b = 10 * (b div 10) + r" "r < 10"
    by (rule div_mod_10)
  define k :: int where "k = int (b div 10)"
  have "(of_nat 1 :: rat) \<le> of_nat b" using assms(1) by (simp only: of_nat_le_iff)
  then have B1: "1 \<le> B" unfolding B_def by simp
  have "(of_nat b :: rat) \<le> of_nat (2 ^ 40)" using assms(2) by (simp only: of_nat_le_iff)
  then have B2: "B \<le> 1099511627776" unfolding B_def by simp
  have ten: "10 * x = B" unfolding x_def by simp
  have "(of_nat b :: rat) = of_nat (10 * (b div 10) + r)" using r(1) by simp
  then have split: "B = 10 * of_int k + of_nat r" unfolding B_def k_def by simp
  have "(of_nat r :: rat) < of_nat 10" using r(2) by (simp only: of_nat_less_iff)
  then have rr: "(of_nat r :: rat) \<le> 9" using r(2) by simp
  have r0: "(0 :: rat) \<le> of_nat r" by simp
  have "\<lfloor>fl x\<rfloor> = k"
  proof (rule floor_fl_between)
    show "0 < x" using B1 ten by linarith
    show "x < 2 ^ 49" unfolding pow_numerals using B2 B1 ten by linarith
    show "of_int k \<le> x" using B1 ten split rr r0 by linarith
    show "x < of_int k + 15 / 16" using B1 B2 ten split rr by linarith
  qed
  then show ?thesis
    unfolding Math_floor_def js_div_def x_def B_def k_def by simp
qed

subsection \<open>Derived estimates\<close>

text \<open>
  The two products in double arithmetic. The literals \<open>0.8\<close> and \<open>1.2\<close> are the doubles
  nearest to \<open>4/5\<close> and \<open>6/5\<close>; neither product is exact, and both round to an integer.
\<close>

lemma product_50_times_0_8: "50 * literal (8 / 10) \<noteq> 40 \<and> js_mul 50 (literal (8 / 10)) = 40"
  by code_simp

lemma product_1000_times_1_2:
  "1000 * literal (12 / 10) \<noteq> 1200 \<and> js_mul 1000 (literal (12 / 10)) = 1200"
  by code_simp

lemma fl_500: "fl 500 = 500"
  by code_simp

lemma floor_50_times_0_8: "Math_floor (js_mul 50 (literal (4 / 5))) = 40"
  by code_simp

lemma floor_1000_times_1_2: "Math_floor (js_mul 1000 (literal (6 / 5))) = 1200"
  by code_simp

lemmas cell_defs = seo_score_card_def traffic_card_def domain_authority_card_def
  backlinks_card_def monthly_visitors_cell_def bounce_rate_cell_def session_duration_cell_def
  organic_keywords_cell_def page_authority_cell_def referring_domains_cell_def
  mobile_score_cell_def headings_panel_def keywords_panel_def word_count_text_def

lemmas gate_defs = number_gate_def text_gate_def num_or_def localized_or_def derived_def
  truthy_def

lemma displayed_cells:
  assumes "word_count d \<noteq> None"
  shows "displayed cv_page_authority d = Inr (page_authority_cell d)"
    and "displayed cv_monthly_visitors d = Inr (monthly_visitors_cell d)"
  using assms by (auto simp: displayed_def render_competitor_def word_count_text_def)

text \<open>
  Claim C5. When \<open>page_authority\<close> is missing and \<open>domain_authority\<close> is a number \<open>a\<close>
  other than zero, the page authority cell is the floor of the double product of \<open>a\<close>
  and \<open>0.8\<close>; when \<open>monthly_visitors\<close> is missing and \<open>estimated_traffic\<close> is a number
  \<open>t\<close> other than zero, the monthly visitors cell is the localized text of the floor of the
  double product of \<open>t\<close> and \<open>1.2\<close>. For whole numbers from 1 to \<open>2\<^sup>4\<^sup>0\<close> these are the
  floors of the exact products, \<open>8n div 10\<close> and \<open>12n div 10\<close>. So \<open>domain_authority = 50\<close>
  gives 40 and \<open>estimated_traffic = 1000\<close> gives 1200. When the response carries its
  \<open>word_count\<close>, the competitor tab is rendered and shows these cells.
\<close>

theorem derived_estimates:
  "(page_authority d = None \<and> domain_authority d = Some 50 \<longrightarrow>
      page_authority_cell d = Num 40
      \<and> (word_count d \<noteq> None \<longrightarrow> displayed cv_page_authority d = Inr (Num 40)))
   \<and> (monthly_visitors d = None \<and> estimated_traffic d = Some 1000 \<longrightarrow>
      monthly_visitors_cell d = Localized 1200
      \<and> (word_count d \<noteq> None \<longrightarrow> displayed cv_monthly_visitors d = Inr (Localized 1200)))
   \<and> (\<forall>a. page_authority d = None \<and> domain_authority d = Some a \<and> a \<noteq> 0 \<longrightarrow>
          page_authority_cell d = Num (of_int \<lfloor>fl (a * fl (8 / 10))\<rfloor>))
   \<and> (\<forall>t. monthly_visitors d = None \<and> estimated_traffic d = Some t \<and> t \<noteq> 0 \<longrightarrow>
          monthly_visitors_cell d = Localized (of_int \<lfloor>fl (t * fl (12 / 10))\<rfloor>))
   \<and> (\<forall>n::nat. 1 \<le> n \<and> n \<le> 2 ^ 40
            \<and> page_authority d = None \<and> domain_authority d = Some (of_nat n) \<longrightarrow>
          page_authority_cell d = Num (of_nat (8 * n div 10)))
   \<and> (\<forall>n::nat. 1 \<le> n \<and> n \<le> 2 ^ 40
            \<and> monthly_visitors d = None \<and> estimated_traffic d = Some (of_nat n) \<longrightarrow>
          monthly_visitors_cell d = Localized (of_nat (12 * n div 10)))
   \<and> (word_count d \<noteq> None \<longrightarrow>
          displayed cv_page_authority d = Inr (page_authority_cell d)
          \<and> displayed cv_monthly_visitors d = Inr (monthly_visitors_cell d))
   \<and> fl (8 / 10) = 3602879701896397 / 2 ^ 52
   \<and> fl (12 / 10) = 5404319552844595 / 2 ^ 52"
proof -
  have pa: "page_authority_cell d = Num 40"
    if "page_authority d = None" "domain_authority d = Some 50"
    using that by (simp add: page_authority_cell_def gate_defs floor_50_times_0_8)
  have mv: "monthly_visitors_cell d = Localized 1200"
    if "monthly_visitors d = None" "estimated_traffic d = Some 1000"
    using that by (simp add: monthly_visitors_cell_def gate_defs floor_1000_times_1_2)
  have pa_rule: "page_authority_cell d = Num (of_int \<lfloor>fl (a * fl (8 / 10))\<rfloor>)"
    if "page_authority d = None" "domain_authority d = Some a" "a \<noteq> 0" for a
    using that
    by (simp add: page_authority_cell_def gate_defs Math_floor_def js_mul_def literal_def)
  have mv_rule: "monthly_visitors_cell d = Localized (of_int \<lfloor>fl (t * fl (12 / 10))\<rfloor>)"
    if "monthly_visitors d = None" "estimated_traffic d = Some t" "t \<noteq> 0" for t
    using that
    by (simp add: monthly_visitors_cell_def gate_defs Math_floor_def js_mul_def literal_def)
  have pa_nat: "page_authority_cell d = Num (of_nat (8 * n div 10))"
    if "1 \<le> n" "n \<le> 2 ^ 40" "page_authority d = None" "domain_authority d = Some (of_nat n)"
    for n :: nat
  proof -
    have "page_authority_cell d = Num (Math_floor (js_mul (of_nat n) (literal (8 / 10))))"
      using that by (simp add: page_authority_cell_def gate_defs)
    then show ?thesis by (simp only: floor_times_0_8 [OF that(1,2)])
  qed
  have mv_nat: "monthly_visitors_cell d = Localized (of_nat (12 * n div 10))"
    if "1 \<le> n" "n \<le> 2 ^ 40" "monthly_visitors d = None"
      "estimated_traffic d = Some (of_nat n)"
    for n :: nat
  proof -
    have "monthly_visitors_cell d
            = Localized (Math_floor (js_mul (of_nat n) (literal (12 / 10))))"
      using that by (simp add: monthly_visitors_cell_def gate_defs)
    then show ?thesis by (simp only: floor_times_1_2 [OF that(1,2)])
  qed
  have lit: "fl (8 / 10) = 3602879701896397 / 2 ^ 52" "fl (12 / 10) = 5404319552844595 / 2 ^ 52"
    using literal_0_8 literal_1_2 by (simp_all only: literal_def)
  have pa_shown: "displayed cv_page_authority d = Inr (Num 40)"
    if "page_authority d = None" "domain_authority d = Some 50" "word_count d \<noteq> None"
    using displayed_cells(1) [OF that(3)] pa [OF that(1,2)] by simp
  have mv_shown: "displayed cv_monthly_visitors d = Inr (Localized 1200)"
    if "monthly_visitors d = None" "estimated_traffic d = Some 1000" "word_count d \<noteq> None"
    using displayed_cells(2) [OF that(3)] mv [OF that(1,2)] by simp
  show ?thesis
    by (intro conjI allI impI; (elim conjE)?;
        (rule pa pa_shown mv mv_shown pa_rule mv_rule pa_nat mv_nat displayed_cells lit;
         assumption?))
qed

theorem derived_estimates_witness:
  "page_authority example_competitor = None
   \<and> domain_authority example_competitor = Some 50
   \<and> monthly_visitors example_competitor = None
   \<and> estimated_traffic example_competitor = Some 1000
   \<and> word_count example_competitor \<noteq> None
   \<and> page_authority_cell example_competitor = Num (of_nat (8 * 50 div 10))
   \<and> monthly_visitors_cell example_competitor = Localized (of_nat (12 * 1000 div 10))
   \<and> displayed cv_page_authority example_competitor = Inr (Num 40)
   \<and> displayed cv_monthly_visitors example_competitor = Inr (Localized 1200)"
  using derived_estimates [of example_competitor]
  by (simp add: example_competitor_def)

subsection \<open>Metrics equal to zero\<close>

lemma getAllKeywords_frame:
  "getAllKeywords (d\<lparr>bounce_rate := v\<rparr>) = getAllKeywords d"
  "getAllKeywords (d\<lparr>page_authority := v\<rparr>) = getAllKeywords d"
  "getAllKeywords (d\<lparr>mobile_score := v\<rparr>) = getAllKeywords d"
  by (simp_all add: getAllKeywords_def)

lemma zero_bounce_rate:
  "render_competitor (d\<lparr>bounce_rate := Some 0\<rparr>) = render_competitor (d\<lparr>bounce_rate := None\<rparr>)"
  by (simp add: render_competitor_def cell_defs gate_defs getAllKeywords_frame
      cong: option.case_cong sum.case_cong)

lemma zero_page_authority:
  "render_competitor (d\<lparr>page_authority := Some 0\<rparr>)
     = render_competitor (d\<lparr>page_authority := None\<rparr>)"
  by (simp add: render_competitor_def cell_defs gate_defs getAllKeywords_frame
      cong: option.case_cong sum.case_cong)

lemma zero_mobile_score:
  "render_competitor (d\<lparr>mobile_score := Some 0\<rparr>) = render_competitor (d\<lparr>mobile_score := None\<rparr>)"
  by (simp add: render_competitor_def cell_defs gate_defs getAllKeywords_frame
      cong: option.case_cong sum.case_cong)

lemma zero_sources:
  "page_authority_cell (d\<lparr>domain_authority := Some 0\<rparr>)
     = page_authority_cell (d\<lparr>domain_authority := None\<rparr>)"
  "mobile_score_cell (d\<lparr>seo_score := Some 0\<rparr>) = mobile_score_cell (d\<lparr>seo_score := None\<rparr>)"
  "monthly_visitors_cell (d\<lparr>estimated_traffic := Some 0\<rparr>)
     = monthly_visitors_cell (d\<lparr>estimated_traffic := None\<rparr>)"
  "referring_domains_cell (d\<lparr>backlinks := Some 0\<rparr>)
     = referring_domains_cell (d\<lparr>backlinks := None\<rparr>)"
  by (simp_all add: cell_defs gate_defs)

lemma zero_cards:
  "seo_score_card (d\<lparr>seo_score := Some 0\<rparr>) = Bare 0"
  "traffic_card (d\<lparr>estimated_traffic := Some 0\<rparr>) = Bare 0"
  "domain_authority_card (d\<lparr>domain_authority := Some 0\<rparr>) = Bare 0"
  "backlinks_card (d\<lparr>backlinks := Some 0\<rparr>) = Bare 0"
  by (simp_all add: cell_defs gate_defs)

lemma zero_localized:
  "monthly_visitors_cell (d\<lparr>monthly_visitors := Some 0\<rparr>) = Localized 0"
  "organic_keywords_cell (d\<lparr>organic_keywords := Some 0\<rparr>) = Localized 0"
  "referring_domains_cell (d\<lparr>referring_domains := Some 0\<rparr>) = Localized 0"
  by (simp_all add: cell_defs gate_defs)

text \<open>
  Claim C10, as stated, fails for the metrics read through \<open>?.toLocaleString()\<close>: a response
  with \<open>monthly_visitors = 0\<close> and \<open>estimated_traffic = 1000\<close> shows the localized 0, while
  the same response without \<open>monthly_visitors\<close> shows the derived 1200.
\<close>

theorem zero_monthly_visitors_is_shown:
  "displayed cv_monthly_visitors (example_competitor\<lparr>monthly_visitors := Some 0\<rparr>)
     = Inr (Localized 0)
   \<and> displayed cv_monthly_visitors (example_competitor\<lparr>monthly_visitors := None\<rparr>)
     = Inr (Localized 1200)"
  by (simp add: displayed_def render_competitor_def word_count_text_def example_competitor_def
      monthly_visitors_cell_def gate_defs floor_1000_times_1_2)

text \<open>
  Claim C10, amended. A zero in \<open>bounce_rate\<close>, \<open>page_authority\<close> or \<open>mobile_score\<close> renders
  the competitor tab exactly as if the field were missing, and \<open>bounce_rate = 0\<close> shows
  \<open>45.2\<close>. A zero in \<open>domain_authority\<close>, \<open>seo_score\<close>, \<open>estimated_traffic\<close> or \<open>backlinks\<close>
  makes the cell derived from it fall back as if the field were missing, and its card is
  not rendered: the bare number 0 stands in the card's place. A zero in
  \<open>monthly_visitors\<close>, \<open>organic_keywords\<close> or \<open>referring_domains\<close> is shown, as the
  localized 0.
\<close>

theorem zero_is_absent_where_gated:
  "render_competitor (d\<lparr>bounce_rate := Some 0\<rparr>) = render_competitor (d\<lparr>bounce_rate := None\<rparr>)
   \<and> render_competitor (d\<lparr>page_authority := Some 0\<rparr>)
       = render_competitor (d\<lparr>page_authority := None\<rparr>)
   \<and> render_competitor (d\<lparr>mobile_score := Some 0\<rparr>)
       = render_competitor (d\<lparr>mobile_score := None\<rparr>)
   \<and> bounce_rate_cell (d\<lparr>bounce_rate := Some 0\<rparr>) = Text ''45.2''
   \<and> page_authority_cell (d\<lparr>domain_authority := Some 0\<rparr>)
       = page_authority_cell (d\<lparr>domain_authority := None\<rparr>)
   \<and> mobile_score_cell (d\<lparr>seo_score := Some 0\<rparr>) = mobile_score_cell (d\<lparr>seo_score := None\<rparr>)
   \<and> monthly_visitors_cell (d\<lparr>estimated_traffic := Some 0\<rparr>)
       = monthly_visitors_cell (d\<lparr>estimated_traffic := None\<rparr>)
   \<and> referring_domains_cell (d\<lparr>backlinks := Some 0\<rparr>)
       = referring_domains_cell (d\<lparr>backlinks := None\<rparr>)
   \<and> seo_score_card (d\<lparr>seo_score := Some 0\<rparr>) = Bare 0
   \<and> traffic_card (d\<lparr>estimated_traffic := Some 0\<rparr>) = Bare 0
   \<and> domain_authority_card (d\<lparr>domain_authority := Some 0\<rparr>) = Bare 0
   \<and> backlinks_card (d\<lparr>backlinks := Some 0\<rparr>) = Bare 0
   \<and> monthly_visitors_cell (d\<lparr>monthly_visitors := Some 0\<rparr>) = Localized 0
   \<and> organic_keywords_cell (d\<lparr>organic_keywords := Some 0\<rparr>) = Localized 0
   \<and> referring_domains_cell (d\<lparr>referring_domains := Some 0\<rparr>) = Localized 0"
  using zero_bounce_rate [of d] zero_page_authority [of d] zero_mobile_score [of d]
    zero_sources [of d] zero_cards [of d] zero_localized [of d]
  by (simp add: bounce_rate_cell_def num_or_def truthy_def)

theorem zero_is_absent_where_gated_witness:
  "bounce_rate_cell (example_competitor\<lparr>bounce_rate := Some 0\<rparr>) = Text ''45.2''
   \<and> seo_score_card (example_competitor\<lparr>seo_score := Some 0\<rparr>) = Bare 0
   \<and> render_competitor (example_competitor\<lparr>bounce_rate := Some 0\<rparr>)
       = render_competitor (example_competitor\<lparr>bounce_rate := None\<rparr>)
   \<and> monthly_visitors_cell (example_competitor\<lparr>monthly_visitors := Some 0\<rparr>) = Localized 0"
  using zero_is_absent_where_gated [of example_competitor]
  by simp

subsection \<open>Missing fields\<close>

lemma throws_iff:
  "throws (render_competitor d) \<longleftrightarrow> word_count d = None"
  "throws (render_keywords k) \<longleftrightarrow> word_count k = None"
  by (simp_all add: throws_def render_competitor_def render_keywords_def word_count_text_def
      split: option.splits)

lemma competitor_placeholders:
  "monthly_visitors d = None \<and> estimated_traffic d = None \<longrightarrow>
     monthly_visitors_cell d = Text ''N/A''"
  "bounce_rate d = None \<longrightarrow> bounce_rate_cell d = Text ''45.2''"
  "page_authority d = None \<and> domain_authority d = None \<longrightarrow>
     page_authority_cell d = Text ''N/A'' \<and> domain_authority_card d = Nothing"
  "technical d = None \<longrightarrow> entries_panel (technical d) = Nothing"
  "content_metrics d = None \<longrightarrow> entries_panel (content_metrics d) = Nothing"
  "headings d = None \<longrightarrow> headings_panel d = Nothing"
  "hs tag = None \<longrightarrow> heading_panel hs tag = Nothing"
  by (simp_all add: cell_defs gate_defs entries_panel_def heading_panel_def)

lemma keyword_placeholders:
  "keywords_field k = None \<longrightarrow>
     getAllKeywords k = [] \<and> keywords_panel k = Nothing \<and> getKeywordsByType k tag = []"
  "m tag = None \<longrightarrow> list_field (Some m) tag = []"
  by (simp_all add: getAllKeywords_def keywords_panel_def getKeywordsByType_def list_field_def)

lemma results_placeholders:
  "headings a = None \<longrightarrow>
     rv_h1_count (render_results a) = 0 \<and> rv_h2_count (render_results a) = 0
     \<and> rv_h1s (render_results a) = [] \<and> rv_h2s (render_results a) = []"
  "keywords_field a = None \<longrightarrow>
     rv_merged (render_results a) = [] \<and> rv_gemini (render_results a) = []
     \<and> rv_onpage (render_results a) = []"
  "technical a = None \<longrightarrow> \<not> rv_canonical (render_results a) \<and> \<not> rv_og (render_results a)"
  by (simp_all add: render_results_def list_field_def flag_def)

text \<open>
  Claim C1, as stated, fails for \<open>word_count\<close>: on a payload without it, the keywords tab
  and the competitor tab of the tabbed view throw a \<open>TypeError\<close> at
  \<open>word_count.toLocaleString()\<close>.
\<close>

theorem missing_word_count_throws:
  "render_competitor (example_competitor\<lparr>word_count := None\<rparr>)
     = Inl (TypeError ''toLocaleString'')
   \<and> render_keywords (example_keyword_data\<lparr>word_count := None\<rparr>)
     = Inl (TypeError ''toLocaleString'')"
  by (simp add: render_competitor_def render_keywords_def word_count_text_def)

text \<open>
  Claim C1, amended. The keywords tab and the competitor tab throw exactly when the
  payload has no \<open>word_count\<close>, the one field their interfaces declare required and read
  with a method call. Every other missing field is replaced: a missing metric by
  \<open>N/A\<close> (the bounce rate by \<open>45.2\<close>), missing keywords and headings by the empty list and
  the count 0, and a missing \<open>technical\<close>, \<open>content_metrics\<close>, \<open>headings\<close> or \<open>keywords\<close>
  object by leaving its panel out; the results of the analyze view, which read no field
  with a method call, show 0, the empty list and a failed check.
\<close>

theorem render_total_given_word_count:
  "(throws (render_competitor d) \<longleftrightarrow> word_count d = None)
   \<and> (throws (render_keywords k) \<longleftrightarrow> word_count k = None)
   \<and> (monthly_visitors d = None \<and> estimated_traffic d = None \<longrightarrow>
        monthly_visitors_cell d = Text ''N/A'')
   \<and> (bounce_rate d = None \<longrightarrow> bounce_rate_cell d = Text ''45.2'')
   \<and> (page_authority d = None \<and> domain_authority d = None \<longrightarrow>
        page_authority_cell d = Text ''N/A'' \<and> domain_authority_card d = Nothing)
   \<and> (technical d = None \<longrightarrow> entries_panel (technical d) = Nothing)
   \<and> (content_metrics d = None \<longrightarrow> entries_panel (content_metrics d) = Nothing)
   \<and> (headings d = None \<longrightarrow> headings_panel d = Nothing)
   \<and> (hs tag = None \<longrightarrow> heading_panel hs tag = Nothing)
   \<and> (keywords_field k = None \<longrightarrow>
        getAllKeywords k = [] \<and> keywords_panel k = Nothing \<and> getKeywordsByType k tag = [])
   \<and> (m tag = None \<longrightarrow> list_field (Some m) tag = [])
   \<and> (headings a = None \<longrightarrow>
        rv_h1_count (render_results a) = 0 \<and> rv_h2_count (render_results a) = 0
        \<and> rv_h1s (render_results a) = [] \<and> rv_h2s (render_results a) = [])
   \<and> (keywords_field a = None \<longrightarrow>
        rv_merged (render_results a) = [] \<and> rv_gemini (render_results a) = []
        \<and> rv_onpage (render_results a) = [])
   \<and> (technical a = None \<longrightarrow> \<not> rv_canonical (render_results a) \<and> \<not> rv_og (render_results a))"
  by (intro conjI throws_iff competitor_placeholders keyword_placeholders
      results_placeholders)

theorem render_total_given_word_count_witness:
  "word_count (bare_competitor\<lparr>word_count := Some 3\<rparr>) \<noteq> None
   \<and> \<not> throws (render_competitor (bare_competitor\<lparr>word_count := Some 3\<rparr>))
   \<and> \<not> throws (render_keywords (bare_competitor\<lparr>word_count := Some 3\<rparr>))
   \<and> monthly_visitors_cell (bare_competitor\<lparr>word_count := Some 3\<rparr>) = Text ''N/A''
   \<and> bounce_rate_cell (bare_competitor\<lparr>word_count := Some 3\<rparr>) = Text ''45.2''
   \<and> page_authority_cell (bare_competitor\<lparr>word_count := Some 3\<rparr>) = Text ''N/A''
   \<and> headings_panel (bare_competitor\<lparr>word_count := Some 3\<rparr>) = Nothing
   \<and> heading_panel Map.empty ''h1'' = Nothing
   \<and> getAllKeywords (bare_competitor\<lparr>word_count := Some 3\<rparr>) = []
   \<and> list_field (Some Map.empty) ''h1'' = []
   \<and> rv_h1_count (render_results (bare_competitor\<lparr>word_count := Some 3\<rparr>)) = 0
   \<and> rv_merged (render_results (bare_competitor\<lparr>word_count := Some 3\<rparr>)) = []
   \<and> \<not> rv_canonical (render_results (bare_competitor\<lparr>word_count := Some 3\<rparr>))"
  using render_total_given_word_count
    [where d = "bare_competitor\<lparr>word_count := Some 3\<rparr>"
       and k = "bare_competitor\<lparr>word_count := Some 3\<rparr>"
       and a = "bare_competitor\<lparr>word_count := Some 3\<rparr>"
       and hs = Map.empty and m = Map.empty and tag = "''h1''"]
  by (simp add: bare_competitor_def)

subsection \<open>Requests and their outcomes\<close>

text \<open>
  The analyze view: without a valid address it fetches nothing, and a completed request
  leaves either the payload and no error text, or no payload and the error text.
\<close>

lemma analyzeSEO_guard:
  "url st = [] \<or> \<not> isValidUrl (new_URL rt) (url st) \<Longrightarrow> analyzeSEO rt st = (st, [])"
  by (simp add: analyzeSEO_def)

lemma analyzeSEO_completed:
  assumes "url st \<noteq> []" "isValidUrl (new_URL rt) (url st)"
  shows "analyze_try rt st = Inl e \<Longrightarrow>
           data (fst (analyzeSEO rt st)) = None
           \<and> error (fst (analyzeSEO rt st)) = catch_message e ''Failed to analyze website''"
    and "analyze_try rt st = Inr p \<Longrightarrow>
           data (fst (analyzeSEO rt st)) = Some p \<and> error (fst (analyzeSEO rt st)) = []"
  using assms by (simp_all add: analyzeSEO_def analyze_pending_def)

lemma analyze_error_text:
  "detail \<noteq> [] \<Longrightarrow> analyze_error_message status (JsonObject (Some detail) m p) = detail"
  "message \<noteq> [] \<Longrightarrow> analyze_error_message status (JsonObject None (Some message) p) = message"
  "analyze_error_message status (JsonObject None None p)
     = ''HTTP error! status: '' @ digits status"
  "analyze_error_message status (NotJson syntax_error)
     = ''HTTP error! status: '' @ digits status"
  by (simp_all add: analyze_error_message_def or_text_def)

text \<open>
  Claim C2. In the tabbed view, a keyword analysis whose fetch is rejected sets the error
  message and keeps the result loaded before: afterwards both are set, and the page
  shows the error line above the keywords panel.
\<close>

theorem analyzeKeywords_failure_keeps_result:
  "fst (analyzeKeywords (example_runtime (Rejected (JsError ''Failed to fetch'')))
          (loaded_tabbed ''https://example.org''))
     = (loaded_tabbed ''https://example.org'')\<lparr>error := ''Failed to fetch''\<rparr>
   \<and> keywordData ((loaded_tabbed ''https://example.org'')\<lparr>error := ''Failed to fetch''\<rparr>)
       = Some example_keyword_data
   \<and> map_sum id (\<lambda>v. (tv_error v, tv_keywords v = Nothing))
         (render_tabbed ((loaded_tabbed ''https://example.org'')\<lparr>error := ''Failed to fetch''\<rparr>))
       = Inr (Element ''Failed to fetch'', False)"
  by (simp add: analyzeKeywords_def tabbed_try_def example_runtime_def loaded_tabbed_def
      catch_message_def trim_def ws1_def ws2_def ws3_def render_tabbed_def render_keywords_def
      word_count_text_def example_keyword_data_def text_gate_def)

text \<open>
  Claim C3. \<open>not a url\<close> is not a valid URL, and the tabbed view fetches with it, from
  either tab; the crawl view fetches with an address of three spaces.
\<close>

theorem tabbed_and_crawl_fetch_invalid_url:
  "\<not> isValidUrl example_new_URL ''not a url''
   \<and> snd (analyzeKeywords (example_runtime out) (loaded_tabbed ''not a url''))
       = [Fetch ''http://localhost:8000/keywords?url=not%20a%20url'']
   \<and> snd (analyzeCompetitor (example_runtime out') (loaded_tabbed ''not a url''))
       = [Fetch ''http://localhost:8000/analyze?url=not%20a%20url'']
   \<and> snd (analyzeSEO_crawl (example_runtime out'')
             \<lparr>url = ''   '', loading = False, error = [], seoData = None\<rparr>)
       = [Fetch ''/api/crawl?url=%20%20%20'']"
  by (simp add: isValidUrl_def example_new_URL_def analyzeKeywords_def analyzeCompetitor_def
      analyzeSEO_crawl_def keywords_request_def competitor_request_def crawl_request_def
      API_URL_def or_text_def example_runtime_def loaded_tabbed_def encodeURIComponent_def
      alphanumeric_def percent_def hex_digit_def trim_def ws1_def ws2_def ws3_def)

text \<open>
  Claim C6. On a 500 response whose body is \<open>{"message": "backend overloaded"}\<close>, the
  tabbed view shows the generic text, while the analyze view shows the server's message.
\<close>

theorem tabbed_view_ignores_message:
  "error (fst (analyzeCompetitor
        (example_runtime
           (Response 500 (JsonObject None (Some ''backend overloaded'') bare_competitor)))
        (loaded_tabbed ''https://example.com'')))
     = ''HTTP error! status: 500''
   \<and> error (fst (analyzeSEO
        (example_runtime
           (Response 500 (JsonObject None (Some ''backend overloaded'') bare_competitor)))
        (setUrl ''https://example.com'' SEOAnalyzer_init)))
     = ''backend overloaded''"
  by (simp add: analyzeCompetitor_def tabbed_try_def tabbed_error_message_def analyzeSEO_def
      analyze_try_def analyze_error_message_def analyze_pending_def ok_def or_text_def
      catch_message_def example_runtime_def loaded_tabbed_def setUrl_def SEOAnalyzer_init_def
      isValidUrl_def example_new_URL_def trim_def ws1_def ws2_def ws3_def digits.simps)

text \<open>
  Claim C9. The analyze view starts with \<open>geminiTopN = 20\<close> and requests
  \<open>gemini_top_n=20\<close> from the default backend address; once the number field is emptied
  it requests \<open>gemini_top_n=0\<close>, and once 500 is typed it requests \<open>gemini_top_n=500\<close>,
  both outside 5--100.
\<close>

theorem topN_not_bounded:
  "geminiTopN (SEOAnalyzer_init :: AnalyzePayload analyze_state) = 20
   \<and> geminiTopN (topN_onChange None (SEOAnalyzer_init :: AnalyzePayload analyze_state)) < 5
   \<and> 100 < geminiTopN
               (topN_onChange (Some 500) (SEOAnalyzer_init :: AnalyzePayload analyze_state))
   \<and> snd (analyzeSEO (example_runtime out)
             (setUrl ''https://example.com'' (SEOAnalyzer_init :: AnalyzePayload analyze_state)))
       = [Fetch ''http://localhost:8000/analyze?url=https%3A%2F%2Fexample.com&gemini_top_n=20'']
   \<and> snd (analyzeSEO (example_runtime out)
             (topN_onChange None
                (setUrl ''https://example.com''
                   (SEOAnalyzer_init :: AnalyzePayload analyze_state))))
       = [Fetch ''http://localhost:8000/analyze?url=https%3A%2F%2Fexample.com&gemini_top_n=0'']
   \<and> snd (analyzeSEO (example_runtime out)
             (topN_onChange (Some 500)
                (setUrl ''https://example.com''
                   (SEOAnalyzer_init :: AnalyzePayload analyze_state))))
       = [Fetch ''http://localhost:8000/analyze?url=https%3A%2F%2Fexample.com&gemini_top_n=500'']"
  by (simp add: analyzeSEO_def analyze_request_def API_URL_def or_text_def
      URLSearchParams_toString_def form_encode_def alphanumeric_def percent_def hex_digit_def
      String_number_def digits.simps example_runtime_def setUrl_def topN_onChange_def
      SEOAnalyzer_init_def isValidUrl_def example_new_URL_def fl_500)

subsection \<open>Export helpers\<close>

lemma pushRows_append: "pushRows source words rows = rows @ map (csv_row source) words"
  unfolding pushRows_def by (induction words arbitrary: rows) simp_all

lemma csv_text_rows:
  "csv_text st =
     BOM @ join ''\<newline>'' (''source,keyword''
        # map (csv_row ''merged'') (data_keywords st ''merged'')
        @ map (csv_row ''gemini'') (data_keywords st ''gemini'')
        @ map (csv_row ''onpage'') (data_keywords st ''onpage''))"
  by (simp add: csv_text_def pushRows_append)

lemma join_cons: "join sep (x # xs) = x @ concat (map (\<lambda>r. sep @ r) xs)"
  by (induction xs arbitrary: x) simp_all

lemma csv_text_bytes:
  "csv_text st =
     [CHR 0xEF, CHR 0xBB, CHR 0xBF] @ ''source,keyword''
       @ concat (map (\<lambda>kw. CHR 0x0A # ''merged'' @ [CHR '','', CHR 0x22]
                   @ concat (map (\<lambda>c. if c = CHR 0x22 then [CHR 0x22, CHR 0x22] else [c]) kw)
                   @ [CHR 0x22]) (data_keywords st ''merged''))
       @ concat (map (\<lambda>kw. CHR 0x0A # ''gemini'' @ [CHR '','', CHR 0x22]
                   @ concat (map (\<lambda>c. if c = CHR 0x22 then [CHR 0x22, CHR 0x22] else [c]) kw)
                   @ [CHR 0x22]) (data_keywords st ''gemini''))
       @ concat (map (\<lambda>kw. CHR 0x0A # ''onpage'' @ [CHR '','', CHR 0x22]
                   @ concat (map (\<lambda>c. if c = CHR 0x22 then [CHR 0x22, CHR 0x22] else [c]) kw)
                   @ [CHR 0x22]) (data_keywords st ''onpage''))"
  unfolding csv_text_rows join_cons BOM_def
  by (simp add: comp_def csv_row_def replace_all_def)

text \<open>
  Claim C7. The CSV export hands the browser one file, \<open>keywords.csv\<close>, whose bytes are the
  UTF-8 byte-order mark \<open>EF BB BF\<close>, the header line \<open>source,keyword\<close> and then, each after
  a newline, one row per keyword: the source tag, a comma and the keyword between double
  quotes (a double quote inside it doubled), the merged list first, then gemini, then
  onpage. For \<open>merged = ["seo", "tools"]\<close>, \<open>gemini = ["ai"]\<close>, \<open>onpage = []\<close> the lines
  after the header are \<open>merged,"seo"\<close>, \<open>merged,"tools"\<close>, \<open>gemini,"ai"\<close> and nothing else.
\<close>

theorem downloadCSV_serializes:
  "snd (downloadCSV st) =
     [Download \<lparr>filename = ''keywords.csv'', mime = ''text/csv;charset=utf-8;'',
        content = BOM @ join ''\<newline>'' (''source,keyword''
          # map (csv_row ''merged'') (data_keywords st ''merged'')
          @ map (csv_row ''gemini'') (data_keywords st ''gemini'')
          @ map (csv_row ''onpage'') (data_keywords st ''onpage''))\<rparr>]
   \<and> (data_keywords st ''merged'' = [''seo'', ''tools'']
        \<and> data_keywords st ''gemini'' = [''ai'']
        \<and> data_keywords st ''onpage'' = []
      \<longrightarrow> csv_text st =
            BOM @ ''source,keyword\<newline>merged,\"seo\"\<newline>merged,\"tools\"\<newline>gemini,\"ai\"'')
   \<and> (\<forall>d m ms gs os.
         data st = Some d \<and> keywords_field d = Some m \<and> m ''merged'' = Some ms
         \<and> m ''gemini'' = Some gs \<and> m ''onpage'' = Some os \<longrightarrow>
         snd (downloadCSV st) =
           [Download \<lparr>filename = ''keywords.csv'', mime = ''text/csv;charset=utf-8;'',
              content =
                [CHR 0xEF, CHR 0xBB, CHR 0xBF] @ ''source,keyword''
                @ concat (map (\<lambda>kw. CHR 0x0A # ''merged'' @ [CHR '','', CHR 0x22]
                    @ concat (map (\<lambda>c. if c = CHR 0x22 then [CHR 0x22, CHR 0x22] else [c]) kw)
                    @ [CHR 0x22]) ms)
                @ concat (map (\<lambda>kw. CHR 0x0A # ''gemini'' @ [CHR '','', CHR 0x22]
                    @ concat (map (\<lambda>c. if c = CHR 0x22 then [CHR 0x22, CHR 0x22] else [c]) kw)
                    @ [CHR 0x22]) gs)
                @ concat (map (\<lambda>kw. CHR 0x0A # ''onpage'' @ [CHR '','', CHR 0x22]
                    @ concat (map (\<lambda>c. if c = CHR 0x22 then [CHR 0x22, CHR 0x22] else [c]) kw)
                    @ [CHR 0x22]) os)\<rparr>])
   \<and> (data_keywords st ''merged'' = [''seo'', ''tools'']
        \<and> data_keywords st ''gemini'' = [''ai'']
        \<and> data_keywords st ''onpage'' = []
      \<longrightarrow> csv_text st =
            [CHR 0xEF, CHR 0xBB, CHR 0xBF]
            @ ''source,keyword\<newline>merged,\"seo\"\<newline>merged,\"tools\"\<newline>gemini,\"ai\"'')"
proof (intro conjI)
  show "snd (downloadCSV st) =
     [Download \<lparr>filename = ''keywords.csv'', mime = ''text/csv;charset=utf-8;'',
        content = BOM @ join ''\<newline>'' (''source,keyword''
          # map (csv_row ''merged'') (data_keywords st ''merged'')
          @ map (csv_row ''gemini'') (data_keywords st ''gemini'')
          @ map (csv_row ''onpage'') (data_keywords st ''onpage''))\<rparr>]"
    by (simp add: downloadCSV_def csv_text_rows)
next
  show "data_keywords st ''merged'' = [''seo'', ''tools'']
        \<and> data_keywords st ''gemini'' = [''ai'']
        \<and> data_keywords st ''onpage'' = []
      \<longrightarrow> csv_text st =
            BOM @ ''source,keyword\<newline>merged,\"seo\"\<newline>merged,\"tools\"\<newline>gemini,\"ai\"''"
    by (simp add: csv_text_rows csv_row_def replace_all_def)
next
  show "\<forall>d m ms gs os.
         data st = Some d \<and> keywords_field d = Some m \<and> m ''merged'' = Some ms
         \<and> m ''gemini'' = Some gs \<and> m ''onpage'' = Some os \<longrightarrow>
         snd (downloadCSV st) =
           [Download \<lparr>filename = ''keywords.csv'', mime = ''text/csv;charset=utf-8;'',
              content =
                [CHR 0xEF, CHR 0xBB, CHR 0xBF] @ ''source,keyword''
                @ concat (map (\<lambda>kw. CHR 0x0A # ''merged'' @ [CHR '','', CHR 0x22]
                    @ concat (map (\<lambda>c. if c = CHR 0x22 then [CHR 0x22, CHR 0x22] else [c]) kw)
                    @ [CHR 0x22]) ms)
                @ concat (map (\<lambda>kw. CHR 0x0A # ''gemini'' @ [CHR '','', CHR 0x22]
                    @ concat (map (\<lambda>c. if c = CHR 0x22 then [CHR 0x22, CHR 0x22] else [c]) kw)
                    @ [CHR 0x22]) gs)
                @ concat (map (\<lambda>kw. CHR 0x0A # ''onpage'' @ [CHR '','', CHR 0x22]
                    @ concat (map (\<lambda>c. if c = CHR 0x22 then [CHR 0x22, CHR 0x22] else [c]) kw)
                    @ [CHR 0x22]) os)\<rparr>]"
  proof (intro allI impI)
    fix d m ms gs os
    assume h: "data st = Some d \<and> keywords_field d = Some m \<and> m ''merged'' = Some ms
         \<and> m ''gemini'' = Some gs \<and> m ''onpage'' = Some os"
    then have "data_keywords st ''merged'' = ms" "data_keywords st ''gemini'' = gs"
      "data_keywords st ''onpage'' = os"
      by (simp_all add: data_keywords_def list_field_def)
    then show "snd (downloadCSV st) =
           [Download \<lparr>filename = ''keywords.csv'', mime = ''text/csv;charset=utf-8;'',
              content =
                [CHR 0xEF, CHR 0xBB, CHR 0xBF] @ ''source,keyword''
                @ concat (map (\<lambda>kw. CHR 0x0A # ''merged'' @ [CHR '','', CHR 0x22]
                    @ concat (map (\<lambda>c. if c = CHR 0x22 then [CHR 0x22, CHR 0x22] else [c]) kw)
                    @ [CHR 0x22]) ms)
                @ concat (map (\<lambda>kw. CHR 0x0A # ''gemini'' @ [CHR '','', CHR 0x22]
                    @ concat (map (\<lambda>c. if c = CHR 0x22 then [CHR 0x22, CHR 0x22] else [c]) kw)
                    @ [CHR 0x22]) gs)
                @ concat (map (\<lambda>kw. CHR 0x0A # ''onpage'' @ [CHR '','', CHR 0x22]
                    @ concat (map (\<lambda>c. if c = CHR 0x22 then [CHR 0x22, CHR 0x22] else [c]) kw)
                    @ [CHR 0x22]) os)\<rparr>]"
      using csv_text_bytes [of st] by (simp only: downloadCSV_def snd_conv)
  qed
next
  show "data_keywords st ''merged'' = [''seo'', ''tools'']
        \<and> data_keywords st ''gemini'' = [''ai'']
        \<and> data_keywords st ''onpage'' = []
      \<longrightarrow> csv_text st =
            [CHR 0xEF, CHR 0xBB, CHR 0xBF]
            @ ''source,keyword\<newline>merged,\"seo\"\<newline>merged,\"tools\"\<newline>gemini,\"ai\"''"
    by (simp add: csv_text_rows csv_row_def replace_all_def BOM_def)
qed

theorem downloadCSV_serializes_witness:
  "data (loaded_view example_keywords) = Some (example_payload example_keywords)
   \<and> keywords_field (example_payload example_keywords) = Some example_keywords
   \<and> example_keywords ''merged'' = Some [''seo'', ''tools'']
   \<and> example_keywords ''gemini'' = Some [''ai'']
   \<and> example_keywords ''onpage'' = Some []
   \<and> data_keywords (loaded_view example_keywords) ''merged'' = [''seo'', ''tools'']
   \<and> data_keywords (loaded_view example_keywords) ''gemini'' = [''ai'']
   \<and> data_keywords (loaded_view example_keywords) ''onpage'' = []
   \<and> csv_text (loaded_view example_keywords) =
        BOM @ ''source,keyword\<newline>merged,\"seo\"\<newline>merged,\"tools\"\<newline>gemini,\"ai\"''
   \<and> csv_text (loaded_view example_keywords) =
        [CHR 0xEF, CHR 0xBB, CHR 0xBF]
        @ ''source,keyword\<newline>merged,\"seo\"\<newline>merged,\"tools\"\<newline>gemini,\"ai\"''"
  using downloadCSV_serializes [of "loaded_view example_keywords"]
  by (simp add: data_keywords_def list_field_def loaded_view_def example_payload_def
      example_keywords_def BOM_def)

text \<open>
  Claim C8. On a loaded view whose three keyword lists are empty, \<open>copyMerged\<close> does
  nothing, while \<open>downloadCSV\<close> still hands the browser a file: the byte-order mark and the
  header line.
\<close>

theorem downloadCSV_empty_lists_still_downloads:
  "copyMerged clip_ok (loaded_view no_keywords) = (loaded_view no_keywords, [])
   \<and> downloadCSV (loaded_view no_keywords) =
       (loaded_view no_keywords,
        [Download \<lparr>filename = ''keywords.csv'', mime = ''text/csv;charset=utf-8;'',
                    content = BOM @ ''source,keyword''\<rparr>])"
  by (simp add: copyMerged_def downloadCSV_def csv_text_rows data_keywords_def list_field_def
      loaded_view_def example_payload_def no_keywords_def)

end
